theory Spec2Isabelle
  imports Main "HOL-Library.Word" "HOL-Library.Multiset"
begin

section \<open>Data model\<close>

text \<open>
  \<open>net.IP\<close> is a byte slice. A \<open>float64\<close> is only ever copied by the handler, never
  computed with, so it is kept as its IEEE-754 bit pattern; the Go zero value \<open>0.0\<close> is
  the pattern \<open>0\<close>.
\<close>

type_synonym IP = "8 word list"
type_synonym float64 = "64 word"
type_synonym uint64 = "64 word"

text \<open>
  Go errors. \<open>Errorf\<close> keeps the format string and the arguments of a \<open>fmt.Errorf\<close>
  call, \<open>ErrorsNew\<close> the text of an \<open>errors.New\<close>; \<open>AddrError\<close> is a
  \<open>*net.AddrError\<close> with its \<open>Err\<close> text, \<open>ErrNotExist\<close> an error for which
  \<open>errors.Is(err, fs.ErrNotExist)\<close> holds, \<open>LibError\<close> any other error of a library.
\<close>

datatype error =
    AddrError string
  | ErrNotExist
  | LibError string
  | ErrorsNew string
  | Errorf string "fmtarg list"
and fmtarg = AStr string | AStrs "string list" | AInt int | AErr error

text \<open>The three decode targets of \<open>src/geoip2.go\<close> (lines 17-52).\<close>

record CountryRecord =
  Country_ISOCode :: string
  Country_IsInEuropeanUnion :: bool
  RegisteredCountry_IsInEuropeanUnion :: bool

text \<open>
  \<open>City.Names\<close> is a Go \<open>map[string]string\<close>. It is kept as the list of its entries
  in the order in which the \<open>range\<close> statement of \<open>performLookup\<close> enumerates them
  in this run: Go leaves that order unspecified, and it may differ between two runs over
  the same map. The keys of a map are distinct. \<open>Subdivisions\<close> keeps the \<open>IsoCode\<close>
  of each element, the only field of the element struct.
\<close>

record CityRecord =
  City_Names :: "(string \<times> string) list"
  Location_Latitude :: float64
  Location_Longitude :: float64
  Subdivisions :: "string list"

record ASNRecord =
  AutonomousSystemNumber :: uint64
  AutonomousSystemOrganization :: string

text \<open>
  A \<open>*maxminddb.Reader\<close>: its metadata, and what \<open>Reader.Lookup(ip, &result)\<close>
  decodes into a fresh result of each of the three record types (a reader is untyped, the
  result argument selects the decoding). A lookup that finds no entry returns no error and
  leaves the fresh record at its zero value.
\<close>

record Reader =
  BuildEpoch :: nat
  DatabaseType :: string
  IPVersion :: nat
  RecordSize :: nat
  NodeCount :: nat
  decodeCountry :: "IP \<Rightarrow> error + CountryRecord"
  decodeCity :: "IP \<Rightarrow> error + CityRecord"
  decodeASN :: "IP \<Rightarrow> error + ASNRecord"

text \<open>
  \<open>GeoIP2State\<close>, from the state manager source appended to \<open>src/README.md\<close> (its
  version with four databases, whose handlers \<open>src/geoip2.go\<close> reads): a nil handler
  is \<open>None\<close>. The mutex and the timer channel are left out: every operation is
  modelled as running alone.
\<close>

record GeoIP2State =
  CountryDBHandler :: "Reader option"
  CityDBHandler :: "Reader option"
  GlobalCityDBHandler :: "Reader option"
  ASNDBHandler :: "Reader option"
  CountryDatabasePath :: string
  CityDatabasePath :: string
  GlobalCityDatabasePath :: string
  ASNDatabasePath :: string
  ReloadInterval :: int

text \<open>The handler: its mode string and the pointer to the shared state (nil is \<open>None\<close>).\<close>

record GeoIP2 =
  Enable :: string
  state :: "GeoIP2State option"

datatype IpSafeLevel = Wild | TrustedProxies | Strict

text \<open>
  What the handler reads of a request: \<open>r.RemoteAddr\<close>, the value of
  \<open>r.Header.Get("X-Forwarded-For")\<close> (empty when the header is absent) and the
  \<open>TrustedProxyVarKey\<close> variable, which Caddy sets to a bool before any handler runs.
\<close>

record Request =
  RemoteAddr :: string
  XForwardedFor :: string
  TrustedProxy :: bool

text \<open>
  Caddy's replacer stores a value of any type under a key; the handler stores strings,
  bools, \<open>float64\<close>s and \<open>uint64\<close>s.
\<close>

datatype repl_value = VString string | VBool bool | VFloat64 float64 | VUint64 uint64

type_synonym Replacer = "string \<rightharpoonup> repl_value"

definition Set_repl :: "Replacer \<Rightarrow> string \<Rightarrow> repl_value \<Rightarrow> Replacer" where
  "Set_repl repl k v = repl(k \<mapsto> v)"

definition VarCity :: string where "VarCity = ''geoip2_city''"
definition VarCountryCode :: string where "VarCountryCode = ''geoip2_country_code''"
definition VarLatitude :: string where "VarLatitude = ''geoip2_latitude''"
definition VarLongitude :: string where "VarLongitude = ''geoip2_longitude''"
definition VarSubdivisions :: string where "VarSubdivisions = ''geoip2_subdivisions''"
definition VarIsInEU :: string where "VarIsInEU = ''geoip2_is_in_eu''"
definition VarASN :: string where "VarASN = ''geoip2_asn''"
definition VarASOrg :: string where "VarASOrg = ''geoip2_asorg''"

text \<open>
  The database slots of the specification, as events of a lookup: \<open>Country\<close> is a call
  of \<open>GeoIP2State.Lookup\<close>, \<open>RegionCity\<close> of \<open>LookupCity\<close>, \<open>GlobalCity\<close> of
  \<open>LookupGlobalCity\<close> and \<open>Network\<close> of \<open>LookupASN\<close>.
\<close>

datatype slot = Country | RegionCity | GlobalCity | Network

section \<open>Library functions\<close>

text \<open>
  The functions of the Go standard library that the handler calls and whose definition is
  not part of this repository are parameters of the model: \<open>net.SplitHostPort\<close>,
  \<open>net.ParseIP\<close> (nil is \<open>None\<close>), \<open>strings.TrimSpace\<close>, and what
  \<open>strings.ToLower\<close> returns for a string that is not pure ASCII (its mapping of the
  code points by the Unicode tables).
\<close>

record stdlib =
  SplitHostPort :: "string \<Rightarrow> error + string \<times> string"
  ParseIP :: "string \<Rightarrow> IP option"
  TrimSpace :: "string \<Rightarrow> string"
  ToLowerUnicode :: "string \<Rightarrow> string"

text \<open>
  \<open>strings.ToLower\<close>: when every byte of the string is below \<open>0x80\<close>, each ASCII
  capital letter is replaced by its small letter; any other string goes through the
  Unicode mapping.
\<close>

definition toLowerByte :: "char \<Rightarrow> char" where
  "toLowerByte c =
     (if (65::nat) \<le> of_char c \<and> of_char c \<le> (90::nat)
      then char_of (of_char c + (32::nat)) else c)"

definition isASCII :: "string \<Rightarrow> bool" where
  "isASCII s = list_all (\<lambda>c. (of_char c :: nat) < 128) s"

definition ToLower :: "stdlib \<Rightarrow> string \<Rightarrow> string" where
  "ToLower L s = (if isASCII s then map toLowerByte s else ToLowerUnicode L s)"

text \<open>
  \<open>strings.Split(s, ", ")[0]\<close>: the part of \<open>s\<close> before the first occurrence of
  the separator, all of \<open>s\<close> when there is none. The slice that \<open>Split\<close> returns for
  a non-empty separator is never empty, so the index is in range.
\<close>

fun splitFirst :: "string \<Rightarrow> string" where
  "splitFirst [] = []"
| "splitFirst (c # cs) =
     (if c = CHR '','' \<and> take 1 cs = '' '' then [] else c # splitFirst cs)"

section \<open>The handler (src/geoip2.go)\<close>

definition initializeVariables :: "Replacer \<Rightarrow> Replacer" where
  "initializeVariables repl =
     (let repl = Set_repl repl VarCity (VString '''');
          repl = Set_repl repl VarCountryCode (VString '''');
          repl = Set_repl repl VarLatitude (VString '''');
          repl = Set_repl repl VarLongitude (VString '''');
          repl = Set_repl repl VarSubdivisions (VString '''');
          repl = Set_repl repl VarIsInEU (VString '''');
          repl = Set_repl repl VarASN (VString '''');
          repl = Set_repl repl VarASOrg (VString '''')
      in repl)"

definition isEnabled :: "GeoIP2 \<Rightarrow> bool" where
  "isEnabled m = (Enable m \<noteq> ''off'' \<and> Enable m \<noteq> ''false'' \<and> Enable m \<noteq> ''0'')"

definition getSafetyLevel :: "stdlib \<Rightarrow> GeoIP2 \<Rightarrow> IpSafeLevel" where
  "getSafetyLevel L m =
     (let mode = ToLower L (Enable m) in
      if mode = ''strict'' then Strict
      else if mode = ''wild'' then Wild
      else TrustedProxies)"

definition isMissingPort :: "error \<Rightarrow> bool" where
  "isMissingPort err =
     (case err of AddrError msg \<Rightarrow> msg = ''missing port in address'' | _ \<Rightarrow> False)"

text \<open>
  The first half of \<open>getClientIP\<close>: the string that is parsed, or the error of
  \<open>net.SplitHostPort\<close> that the function returns.
\<close>

definition clientIPString :: "stdlib \<Rightarrow> GeoIP2 \<Rightarrow> Request \<Rightarrow> error + string" where
  "clientIPString L m r =
     (let trustedProxy = TrustedProxy r;
          safeLevel = getSafetyLevel L m;
          forwardedFor = XForwardedFor r
      in if ((safeLevel = TrustedProxies \<and> trustedProxy) \<or> safeLevel = Wild)
            \<and> forwardedFor \<noteq> ''''
         then Inr (TrimSpace L (splitFirst forwardedFor))
         else (case SplitHostPort L (RemoteAddr r) of
                 Inr (host, port) \<Rightarrow> Inr host
               | Inl err \<Rightarrow>
                   if isMissingPort err then Inr (RemoteAddr r) else Inl err))"

definition getClientIP :: "stdlib \<Rightarrow> GeoIP2 \<Rightarrow> Request \<Rightarrow> error + IP" where
  "getClientIP L m r =
     (case clientIPString L m r of
        Inl err \<Rightarrow> Inl err
      | Inr ipStr \<Rightarrow>
          (case ParseIP L ipStr of
             None \<Rightarrow> Inl (Errorf ''invalid IP address: %s'' [AStr ipStr])
           | Some parsedIP \<Rightarrow> Inr parsedIP))"

subsection \<open>The lookups of the state manager\<close>

text \<open>
  \<open>performLookup\<close> passes a \<open>net.IP\<close> and the address of a record of the slot's
  type, so the type switch of each function takes its first case.
\<close>

definition Lookup :: "GeoIP2State \<Rightarrow> IP \<Rightarrow> error + CountryRecord" where
  "Lookup g ip =
     (case CountryDBHandler g of
        None \<Rightarrow> Inl (ErrorsNew ''country database not loaded'')
      | Some db \<Rightarrow> decodeCountry db ip)"

definition LookupCity :: "GeoIP2State \<Rightarrow> IP \<Rightarrow> error + CityRecord" where
  "LookupCity g ip =
     (case CityDBHandler g of
        None \<Rightarrow> Inl (ErrorsNew ''city database not loaded'')
      | Some db \<Rightarrow> decodeCity db ip)"

definition LookupGlobalCity :: "GeoIP2State \<Rightarrow> IP \<Rightarrow> error + CityRecord" where
  "LookupGlobalCity g ip =
     (case GlobalCityDBHandler g of
        None \<Rightarrow> Inl (ErrorsNew ''global city database not loaded'')
      | Some db \<Rightarrow> decodeCity db ip)"

definition LookupASN :: "GeoIP2State \<Rightarrow> IP \<Rightarrow> error + ASNRecord" where
  "LookupASN g ip =
     (case ASNDBHandler g of
        None \<Rightarrow> Inl (ErrorsNew ''ASN database not loaded'')
      | Some db \<Rightarrow> decodeASN db ip)"

subsection \<open>performLookup\<close>

text \<open>
  Lines 163-177: the Country lookup. The result is the pair of the local variables
  \<open>countryCode\<close> and \<open>isInEU\<close>, with the slots queried.
\<close>

definition lookupCountry :: "GeoIP2State \<Rightarrow> IP \<Rightarrow> (string \<times> bool) \<times> slot list" where
  "lookupCountry st clientIP =
     (if CountryDBHandler st \<noteq> None then
        (case Lookup st clientIP of
           Inl err \<Rightarrow> (('''', False), [Country])
         | Inr countryRecord \<Rightarrow>
             ((Country_ISOCode countryRecord,
               Country_IsInEuropeanUnion countryRecord
                 \<or> RegisteredCountry_IsInEuropeanUnion countryRecord),
              [Country]))
      else (('''', False), []))"

text \<open>Lines 186-198: the choice of \<open>cityLookupFunc\<close>; nil is \<open>None\<close>.\<close>

datatype cityLookupFunc = FLookupCity | FLookupGlobalCity

definition chooseCityLookup :: "GeoIP2State \<Rightarrow> bool \<Rightarrow> cityLookupFunc option" where
  "chooseCityLookup st isInEU =
     (if isInEU \<and> CityDBHandler st \<noteq> None then Some FLookupCity
      else if GlobalCityDBHandler st \<noteq> None then Some FLookupGlobalCity
      else None)"

fun callCityLookup :: "cityLookupFunc \<Rightarrow> GeoIP2State \<Rightarrow> IP \<Rightarrow> error + CityRecord" where
  "callCityLookup FLookupCity st ip = LookupCity st ip"
| "callCityLookup FLookupGlobalCity st ip = LookupGlobalCity st ip"

fun slotOf :: "cityLookupFunc \<Rightarrow> slot" where
  "slotOf FLookupCity = RegionCity"
| "slotOf FLookupGlobalCity = GlobalCity"

text \<open>
  Lines 208-220: the city name. \<open>index2\<close> is the two-valued index expression
  \<open>name, exists := Names[k]\<close>; \<open>rangeNames\<close> is the \<open>range\<close> loop, which stops at
  the first name that is not empty.
\<close>

definition index2 :: "(string \<times> string) list \<Rightarrow> string \<Rightarrow> string \<times> bool" where
  "index2 names k = (case map_of names k of Some v \<Rightarrow> (v, True) | None \<Rightarrow> ('''', False))"

fun rangeNames :: "(string \<times> string) list \<Rightarrow> string \<Rightarrow> string" where
  "rangeNames [] cityName = cityName"
| "rangeNames ((k, name) # rest) cityName =
     (if name \<noteq> '''' then name else rangeNames rest cityName)"

definition selectCityName :: "(string \<times> string) list \<Rightarrow> string" where
  "selectCityName names =
     (let (name, exists) = index2 names ''de'' in
      if exists \<and> name \<noteq> '''' then name
      else let (name, exists) = index2 names ''en'' in
        if exists \<and> name \<noteq> '''' then name
        else rangeNames names '''')"

text \<open>Lines 226-229: the subdivision.\<close>

definition selectSubdivision :: "string list \<Rightarrow> string" where
  "selectSubdivision subs =
     (case subs of
        [] \<Rightarrow> ''''
      | s # rest \<Rightarrow> if s \<noteq> '''' then s else '''')"

text \<open>
  Lines 179-237: the city lookup. The result is the tuple of the local variables
  \<open>cityName\<close>, \<open>latitude\<close>, \<open>longitude\<close> and \<open>subdivision\<close>.
\<close>

definition lookupCityData ::
  "GeoIP2State \<Rightarrow> IP \<Rightarrow> bool \<Rightarrow> (string \<times> float64 \<times> float64 \<times> string) \<times> slot list" where
  "lookupCityData st clientIP isInEU =
     (case chooseCityLookup st isInEU of
        None \<Rightarrow> (('''', 0, 0, ''''), [])
      | Some f \<Rightarrow>
          (case callCityLookup f st clientIP of
             Inl err \<Rightarrow> (('''', 0, 0, ''''), [slotOf f])
           | Inr cityRecord \<Rightarrow>
               ((selectCityName (City_Names cityRecord),
                 Location_Latitude cityRecord,
                 Location_Longitude cityRecord,
                 selectSubdivision (Subdivisions cityRecord)),
                [slotOf f])))"

text \<open>Lines 239-252: the ASN lookup.\<close>

definition lookupASNData :: "GeoIP2State \<Rightarrow> IP \<Rightarrow> (uint64 \<times> string) \<times> slot list" where
  "lookupASNData st clientIP =
     (if ASNDBHandler st \<noteq> None then
        (case LookupASN st clientIP of
           Inl err \<Rightarrow> ((0, ''''), [Network])
         | Inr asnRecord \<Rightarrow>
             ((AutonomousSystemNumber asnRecord, AutonomousSystemOrganization asnRecord),
              [Network]))
      else ((0, ''''), []))"

text \<open>Lines 254-262: the eight \<open>repl.Set\<close> calls.\<close>

definition setVariables ::
  "Replacer \<Rightarrow> string \<Rightarrow> bool \<Rightarrow> string \<Rightarrow> float64 \<Rightarrow> float64 \<Rightarrow> string \<Rightarrow> uint64 \<Rightarrow> string
     \<Rightarrow> Replacer" where
  "setVariables repl countryCode isInEU cityName latitude longitude subdivision asnNumber asnOrg =
     (let repl = Set_repl repl VarCountryCode (VString countryCode);
          repl = Set_repl repl VarIsInEU (VBool isInEU);
          repl = Set_repl repl VarCity (VString cityName);
          repl = Set_repl repl VarLatitude (VFloat64 latitude);
          repl = Set_repl repl VarLongitude (VFloat64 longitude);
          repl = Set_repl repl VarSubdivisions (VString subdivision);
          repl = Set_repl repl VarASN (VUint64 asnNumber);
          repl = Set_repl repl VarASOrg (VString asnOrg)
      in repl)"

text \<open>
  \<open>performLookup\<close>: the replacer after the call, and the slots queried, in order.
\<close>

definition performLookup ::
  "stdlib \<Rightarrow> GeoIP2 \<Rightarrow> Request \<Rightarrow> Replacer \<Rightarrow> Replacer \<times> slot list" where
  "performLookup L m r repl =
     (case state m of
        None \<Rightarrow> (repl, [])
      | Some st \<Rightarrow>
          (case getClientIP L m r of
             Inl err \<Rightarrow> (repl, [])
           | Inr clientIP \<Rightarrow>
               (let ((countryCode, isInEU), q1) = lookupCountry st clientIP;
                    ((cityName, latitude, longitude, subdivision), q2) =
                       lookupCityData st clientIP isInEU;
                    ((asnNumber, asnOrg), q3) = lookupASNData st clientIP
                in (setVariables repl countryCode isInEU cityName latitude longitude
                      subdivision asnNumber asnOrg,
                    q1 @ q2 @ q3))))"

text \<open>
  \<open>ServeHTTP\<close>: the replacer and the slots queried, and the error of the next handler,
  which is what the function returns.
\<close>

definition ServeHTTP ::
  "stdlib \<Rightarrow> GeoIP2 \<Rightarrow> Request \<Rightarrow> Replacer \<Rightarrow> (Replacer \<Rightarrow> error option)
     \<Rightarrow> (Replacer \<times> slot list) \<times> error option" where
  "ServeHTTP L m r repl next =
     (let repl1 = initializeVariables repl;
          (repl2, queried) =
             (if isEnabled m then performLookup L m r repl1 else (repl1, []))
      in ((repl2, queried), next repl2))"

text \<open>\<open>Validate\<close> of the handler: \<open>None\<close> is the nil error.\<close>

definition validModes :: "string list" where
  "validModes = [''strict'', ''wild'', ''trusted_proxies'', ''off'', ''false'', ''0'', '''']"

fun matchMode :: "string \<Rightarrow> string list \<Rightarrow> bool" where
  "matchMode mode [] = False"
| "matchMode mode (valid # rest) = (if mode = valid then True else matchMode mode rest)"

definition Validate :: "stdlib \<Rightarrow> GeoIP2 \<Rightarrow> error option" where
  "Validate L g =
     (let mode = ToLower L (Enable g) in
      if matchMode mode validModes then None
      else Some (Errorf ''invalid enable mode '%s', must be one of: %v''
                   [AStr (Enable g), AStrs validModes]))"

section \<open>The state manager (GeoIP2State)\<close>

text \<open>
  The file system that \<open>loadDatabase\<close> reads is a parameter: \<open>os.Stat\<close> gives the
  mode and size of a path or an error, \<open>maxminddb.Open\<close> a reader or an error.
\<close>

record FileInfo =
  IsRegular :: bool
  Size :: int

record filesystem =
  Stat :: "string \<Rightarrow> error + FileInfo"
  Open :: "string \<Rightarrow> error + Reader"

definition isNotExist :: "error \<Rightarrow> bool" where
  "isNotExist err = (case err of ErrNotExist \<Rightarrow> True | _ \<Rightarrow> False)"

definition validateDatabaseFile :: "filesystem \<Rightarrow> string \<Rightarrow> error option" where
  "validateDatabaseFile F path =
     (case Stat F path of
        Inl err \<Rightarrow>
          if isNotExist err then Some (Errorf ''database file not found: %s'' [AStr path])
          else Some (Errorf ''cannot access database file %s: %v'' [AStr path, AErr err])
      | Inr info \<Rightarrow>
          if \<not> IsRegular info
          then Some (Errorf ''database path is not a regular file: %s'' [AStr path])
          else if Size info < 1024 * 1024
          then Some (Errorf ''database file appears too small: %d bytes'' [AInt (Size info)])
          else None)"

text \<open>The handlers that are not nil, which a successful load closes.\<close>

definition oldHandlers :: "GeoIP2State \<Rightarrow> Reader list" where
  "oldHandlers g =
     (case CountryDBHandler g of None \<Rightarrow> [] | Some db \<Rightarrow> [db])
     @ (case CityDBHandler g of None \<Rightarrow> [] | Some db \<Rightarrow> [db])
     @ (case GlobalCityDBHandler g of None \<Rightarrow> [] | Some db \<Rightarrow> [db])
     @ (case ASNDBHandler g of None \<Rightarrow> [] | Some db \<Rightarrow> [db])"

text \<open>
  \<open>loadDatabase\<close>: the error returned (\<open>None\<close> is nil), the state after the call and
  the readers closed by it. A failed validation of the global city file is only logged,
  and the file is opened all the same; the ASN file is opened only when its path is set
  and its validation passed.
\<close>

definition loadDatabase ::
  "filesystem \<Rightarrow> GeoIP2State \<Rightarrow> error option \<times> GeoIP2State \<times> Reader list" where
  "loadDatabase F g =
     (case validateDatabaseFile F (CountryDatabasePath g) of
        Some err \<Rightarrow>
          (Some (Errorf ''country database validation failed: %v'' [AErr err]), g, [])
      | None \<Rightarrow>
     (case validateDatabaseFile F (CityDatabasePath g) of
        Some err \<Rightarrow>
          (Some (Errorf ''city database validation failed: %v'' [AErr err]), g, [])
      | None \<Rightarrow>
     (let asnDBValid =
            (ASNDatabasePath g \<noteq> '''' \<and> validateDatabaseFile F (ASNDatabasePath g) = None)
      in
     (case Open F (CountryDatabasePath g) of
        Inl err \<Rightarrow>
          (Some (Errorf ''failed to open country database %s: %v''
                   [AStr (CountryDatabasePath g), AErr err]), g, [])
      | Inr newCountryDB \<Rightarrow>
     (case Open F (CityDatabasePath g) of
        Inl err \<Rightarrow>
          (Some (Errorf ''failed to open city database %s: %v''
                   [AStr (CityDatabasePath g), AErr err]), g, [])
      | Inr newCityDB \<Rightarrow>
     (let newGlobalCityDB =
            (case Open F (GlobalCityDatabasePath g) of
               Inl err \<Rightarrow> None
             | Inr db \<Rightarrow> Some db);
          newASNDB =
            (if asnDBValid
             then (case Open F (ASNDatabasePath g) of Inl err \<Rightarrow> None | Inr db \<Rightarrow> Some db)
             else None)
      in (None,
          g\<lparr>CountryDBHandler := Some newCountryDB,
            CityDBHandler := Some newCityDB,
            GlobalCityDBHandler := newGlobalCityDB,
            ASNDBHandler := newASNDB\<rparr>,
          oldHandlers g)))))))"

text \<open>
  \<open>performScheduledReload\<close> logs the outcome of \<open>loadDatabase\<close> and returns nothing:
  the state after it, and the readers closed.
\<close>

definition performScheduledReload :: "filesystem \<Rightarrow> GeoIP2State \<Rightarrow> GeoIP2State \<times> Reader list" where
  "performScheduledReload F g = (case loadDatabase F g of (err, g', closed) \<Rightarrow> (g', closed))"

text \<open>
  \<open>GetDatabaseInfo\<close>, the status report: a Go map from string keys to values of any
  type, given by the list of its entries.
\<close>

datatype info_value = IString string | IInt int | IBool bool | INat nat

definition metadataInfo :: "string \<Rightarrow> Reader option \<Rightarrow> (string \<times> info_value) list" where
  "metadataInfo prefix h =
     (case h of
        None \<Rightarrow> []
      | Some db \<Rightarrow>
          [(prefix @ ''_build_epoch'', INat (BuildEpoch db)),
           (prefix @ ''_database_type'', IString (DatabaseType db)),
           (prefix @ ''_ip_version'', INat (IPVersion db)),
           (prefix @ ''_record_size'', INat (RecordSize db)),
           (prefix @ ''_node_count'', INat (NodeCount db))])"

definition GetDatabaseInfo :: "GeoIP2State \<Rightarrow> string \<rightharpoonup> info_value" where
  "GetDatabaseInfo g =
     map_of
       ([(''country_database_path'', IString (CountryDatabasePath g)),
         (''city_database_path'', IString (CityDatabasePath g)),
         (''global_city_database_path'', IString (GlobalCityDatabasePath g)),
         (''asn_database_path'', IString (ASNDatabasePath g)),
         (''reload_interval'', IInt (ReloadInterval g)),
         (''country_loaded'', IBool (CountryDBHandler g \<noteq> None)),
         (''city_loaded'', IBool (CityDBHandler g \<noteq> None)),
         (''global_city_loaded'', IBool (GlobalCityDBHandler g \<noteq> None)),
         (''asn_loaded'', IBool (ASNDBHandler g \<noteq> None))]
        @ metadataInfo ''country'' (CountryDBHandler g)
        @ metadataInfo ''city'' (CityDBHandler g)
        @ metadataInfo ''global_city'' (GlobalCityDBHandler g))"

section \<open>Derived notions\<close>

text \<open>The eight variables of the handler.\<close>

definition geoip2Variables :: "string list" where
  "geoip2Variables =
     [VarCity, VarCountryCode, VarLatitude, VarLongitude, VarSubdivisions, VarIsInEU,
      VarASN, VarASOrg]"

text \<open>The value of the local variable \<open>isInEU\<close> after the Country lookup.\<close>

definition isInEUOf :: "GeoIP2State \<Rightarrow> IP \<Rightarrow> bool" where
  "isInEUOf st ip = snd (fst (lookupCountry st ip))"

text \<open>
  The result of the city lookup that \<open>performLookup\<close> makes for an address, \<open>None\<close>
  when it makes none.
\<close>

definition cityLookupResult :: "GeoIP2State \<Rightarrow> IP \<Rightarrow> (error + CityRecord) option" where
  "cityLookupResult st ip =
     (case chooseCityLookup st (isInEUOf st ip) of
        None \<Rightarrow> None
      | Some f \<Rightarrow> Some (callCityLookup f st ip))"

text \<open>
  The name stored under a key of the names map, when the key is present and the name is not
  empty: the test \<open>exists && name != ""\<close> of the handler.
\<close>

definition nonEmptyName :: "(string \<times> string) list \<Rightarrow> string \<Rightarrow> string option" where
  "nonEmptyName names k =
     (case map_of names k of
        None \<Rightarrow> None
      | Some name \<Rightarrow> if name \<noteq> '''' then Some name else None)"

text \<open>
  The city variables of a replacer hold what \<open>performLookup\<close> extracts from the result
  of a city lookup: after a successful lookup the selected name, the coordinates and the
  first subdivision of the record; after a failed one the empty name and subdivision.
\<close>

definition cityVariablesFrom :: "Replacer \<Rightarrow> error + CityRecord \<Rightarrow> bool" where
  "cityVariablesFrom repl result =
     (case result of
        Inl err \<Rightarrow>
          repl VarCity = Some (VString '''') \<and> repl VarSubdivisions = Some (VString '''')
      | Inr cityRecord \<Rightarrow>
          repl VarCity = Some (VString (selectCityName (City_Names cityRecord)))
          \<and> repl VarLatitude = Some (VFloat64 (Location_Latitude cityRecord))
          \<and> repl VarLongitude = Some (VFloat64 (Location_Longitude cityRecord))
          \<and> repl VarSubdivisions = Some (VString (selectSubdivision (Subdivisions cityRecord))))"

text \<open>
  The same for the ASN lookup: number and organization of the record, or the empty
  organization.
\<close>

definition asnVariablesFrom :: "Replacer \<Rightarrow> error + ASNRecord \<Rightarrow> bool" where
  "asnVariablesFrom repl result =
     (case result of
        Inl err \<Rightarrow> repl VarASOrg = Some (VString '''')
      | Inr asnRecord \<Rightarrow>
          repl VarASN = Some (VUint64 (AutonomousSystemNumber asnRecord))
          \<and> repl VarASOrg = Some (VString (AutonomousSystemOrganization asnRecord)))"

section \<open>Example configurations\<close>

text \<open>
  A fragment of the library for the examples: it agrees with Go on the strings that the
  examples pass to it (\<open>net.ParseIP\<close> returns the 16-byte form of an IPv4 address).
\<close>

definition exampleLib :: stdlib where
  "exampleLib =
     \<lparr>SplitHostPort = (\<lambda>s. if s = ''192.0.2.7:4711'' then Inr (''192.0.2.7'', ''4711'')
                           else Inl (AddrError ''missing port in address'')),
      ParseIP = (\<lambda>s. if s = ''192.0.2.7''
                      then Some [0, 0, 0, 0, 0, 0, 0, 0, 0, 0, 255, 255, 192, 0, 2, 7]
                      else None),
      TrimSpace = (\<lambda>s. s),
      ToLowerUnicode = (\<lambda>s. s)\<rparr>"

definition exampleIP :: IP where
  "exampleIP = [0, 0, 0, 0, 0, 0, 0, 0, 0, 0, 255, 255, 192, 0, 2, 7]"

definition exampleRequest :: Request where
  "exampleRequest = \<lparr>RemoteAddr = ''192.0.2.7:4711'', XForwardedFor = '''', TrustedProxy = False\<rparr>"

definition spoofedRequest :: Request where
  "spoofedRequest = \<lparr>RemoteAddr = ''192.0.2.7:4711'', XForwardedFor = ''203.0.113.9, 10.0.0.1'',
     TrustedProxy = True\<rparr>"

definition emptyAddrRequest :: Request where
  "emptyAddrRequest = \<lparr>RemoteAddr = '''', XForwardedFor = '''', TrustedProxy = False\<rparr>"

definition emptyReplacer :: Replacer where
  "emptyReplacer = Map.empty"

definition nextOK :: "Replacer \<Rightarrow> error option" where
  "nextOK repl = None"

text \<open>The zero values of the three record types, and records with data.\<close>

definition zeroCountry :: CountryRecord where
  "zeroCountry = \<lparr>Country_ISOCode = '''', Country_IsInEuropeanUnion = False,
     RegisteredCountry_IsInEuropeanUnion = False\<rparr>"

definition zeroCity :: CityRecord where
  "zeroCity = \<lparr>City_Names = [], Location_Latitude = 0, Location_Longitude = 0,
     Subdivisions = []\<rparr>"

definition zeroASN :: ASNRecord where
  "zeroASN = \<lparr>AutonomousSystemNumber = 0, AutonomousSystemOrganization = ''''\<rparr>"

definition germany :: CountryRecord where
  "germany = \<lparr>Country_ISOCode = ''DE'', Country_IsInEuropeanUnion = True,
     RegisteredCountry_IsInEuropeanUnion = False\<rparr>"

text \<open>The UTF-8 bytes of the German name of Munich.\<close>

definition muenchen :: string where
  "muenchen = CHR ''M'' # CHR 0xC3 # CHR 0xBC # ''nchen''"

definition munich :: CityRecord where
  "munich = \<lparr>City_Names = [(''de'', muenchen), (''en'', ''Munich'')],
     Location_Latitude = 0x4048119652BD3C36, Location_Longitude = 0x402726A7EF9DB22D,
     Subdivisions = [''BY'', ''091'']\<rparr>"

definition telekom :: ASNRecord where
  "telekom = \<lparr>AutonomousSystemNumber = 3320,
     AutonomousSystemOrganization = ''Deutsche Telekom AG''\<rparr>"

text \<open>Readers that answer every address alike.\<close>

definition mkReader ::
  "string \<Rightarrow> (error + CountryRecord) \<Rightarrow> (error + CityRecord) \<Rightarrow> (error + ASNRecord) \<Rightarrow> Reader" where
  "mkReader ty c ci a =
     \<lparr>BuildEpoch = 1700000000, DatabaseType = ty, IPVersion = 6, RecordSize = 28,
      NodeCount = 4096,
      decodeCountry = (\<lambda>ip. c), decodeCity = (\<lambda>ip. ci), decodeASN = (\<lambda>ip. a)\<rparr>"

definition countryReader :: Reader where
  "countryReader = mkReader ''GeoIP2-Country'' (Inr germany) (Inr zeroCity) (Inr zeroASN)"

definition cityReader :: Reader where
  "cityReader = mkReader ''GeoIP2-City-Europe'' (Inr zeroCountry) (Inr munich) (Inr zeroASN)"

definition asnReader :: Reader where
  "asnReader = mkReader ''GeoLite2-ASN'' (Inr zeroCountry) (Inr zeroCity) (Inr telekom)"

definition failingReader :: Reader where
  "failingReader = mkReader ''GeoIP2-Country'' (Inl (LibError ''lookup failed''))
     (Inl (LibError ''lookup failed'')) (Inl (LibError ''lookup failed''))"

definition zeroReader :: Reader where
  "zeroReader = mkReader ''GeoLite2-City'' (Inr zeroCountry) (Inr zeroCity) (Inr zeroASN)"

definition mkState ::
  "Reader option \<Rightarrow> Reader option \<Rightarrow> Reader option \<Rightarrow> Reader option \<Rightarrow> GeoIP2State" where
  "mkState c ci g a =
     \<lparr>CountryDBHandler = c, CityDBHandler = ci, GlobalCityDBHandler = g, ASNDBHandler = a,
      CountryDatabasePath = ''/etc/geoip/GeoIP2-Country.mmdb'',
      CityDatabasePath = ''/etc/geoip/GeoIP2-City-Europe.mmdb'',
      GlobalCityDatabasePath = ''/etc/geoip/GeoLite2-City.mmdb'',
      ASNDatabasePath = ''/etc/geoip/GeoLite2-ASN.mmdb'',
      ReloadInterval = 24\<rparr>"

definition fullState :: GeoIP2State where
  "fullState = mkState (Some countryReader) (Some cityReader) (Some zeroReader) (Some asnReader)"

definition regionOnlyState :: GeoIP2State where
  "regionOnlyState = mkState (Some countryReader) (Some cityReader) None None"

definition countryFailsState :: GeoIP2State where
  "countryFailsState = mkState (Some failingReader) (Some cityReader) None None"

definition allFailState :: GeoIP2State where
  "allFailState = mkState (Some failingReader) (Some failingReader) (Some failingReader)
     (Some failingReader)"

definition allZeroState :: GeoIP2State where
  "allZeroState = mkState (Some zeroReader) (Some zeroReader) (Some zeroReader) (Some zeroReader)"

definition handlerOf :: "GeoIP2State \<Rightarrow> GeoIP2" where
  "handlerOf st = \<lparr>Enable = ''strict'', state = Some st\<rparr>"

text \<open>
  Two enumerations of one names map with neither a German nor an English name.
\<close>

definition frenchFirst :: "(string \<times> string) list" where
  "frenchFirst = [(''fr'', ''Munich''), (''it'', ''Monaco di Baviera'')]"

definition italianFirst :: "(string \<times> string) list" where
  "italianFirst = [(''it'', ''Monaco di Baviera''), (''fr'', ''Munich'')]"




text \<open>
  File systems in which the Country database is missing, or is present and does not open.
\<close>

definition missingCountryFS :: filesystem where
  "missingCountryFS =
     \<lparr>Stat = (\<lambda>path. if path = ''/etc/geoip/GeoIP2-Country.mmdb'' then Inl ErrNotExist
                      else Inr \<lparr>IsRegular = True, Size = 5242880\<rparr>),
      Open = (\<lambda>path. if path = ''/etc/geoip/GeoIP2-Country.mmdb''
                      then Inl (LibError ''open failed'') else Inr zeroReader)\<rparr>"

definition corruptCountryFS :: filesystem where
  "corruptCountryFS =
     \<lparr>Stat = (\<lambda>path. Inr \<lparr>IsRegular = True, Size = 5242880\<rparr>),
      Open = (\<lambda>path. if path = ''/etc/geoip/GeoIP2-Country.mmdb''
                      then Inl (LibError ''invalid MaxMind DB file'') else Inr zeroReader)\<rparr>"

text \<open>
  A file system with the Country and the Europe city database, and neither the global city
  nor the ASN database.
\<close>

definition optionalMissingFS :: filesystem where
  "optionalMissingFS =
     \<lparr>Stat = (\<lambda>path. if path = ''/etc/geoip/GeoIP2-Country.mmdb''
                         \<or> path = ''/etc/geoip/GeoIP2-City-Europe.mmdb''
                      then Inr \<lparr>IsRegular = True, Size = 5242880\<rparr>
                      else Inl ErrNotExist),
      Open = (\<lambda>path. if path = ''/etc/geoip/GeoIP2-Country.mmdb'' then Inr countryReader
                      else if path = ''/etc/geoip/GeoIP2-City-Europe.mmdb'' then Inr cityReader
                      else Inl ErrNotExist)\<rparr>"

text \<open>A handler with lookups switched off.\<close>

definition disabledHandlerOf :: "GeoIP2State \<Rightarrow> GeoIP2" where
  "disabledHandlerOf st = \<lparr>Enable = ''off'', state = Some st\<rparr>"

text \<open>
  A file system in which the Country database is fine and the Europe city database is
  missing.
\<close>

definition cityMissingFS :: filesystem where
  "cityMissingFS =
     \<lparr>Stat = (\<lambda>path. if path = ''/etc/geoip/GeoIP2-City-Europe.mmdb'' then Inl ErrNotExist
                      else Inr \<lparr>IsRegular = True, Size = 5242880\<rparr>),
      Open = (\<lambda>path. if path = ''/etc/geoip/GeoIP2-Country.mmdb'' then Inr countryReader
                      else if path = ''/etc/geoip/GeoIP2-City-Europe.mmdb'' then Inl ErrNotExist
                      else Inr zeroReader)\<rparr>"

section \<open>Properties of the replacer and of the lookup steps\<close>

lemmas Var_defs = VarCity_def VarCountryCode_def VarLatitude_def VarLongitude_def
  VarSubdivisions_def VarIsInEU_def VarASN_def VarASOrg_def

lemma initializeVariables_values:
  "initializeVariables repl VarCity = Some (VString '''')"
  "initializeVariables repl VarCountryCode = Some (VString '''')"
  "initializeVariables repl VarLatitude = Some (VString '''')"
  "initializeVariables repl VarLongitude = Some (VString '''')"
  "initializeVariables repl VarSubdivisions = Some (VString '''')"
  "initializeVariables repl VarIsInEU = Some (VString '''')"
  "initializeVariables repl VarASN = Some (VString '''')"
  "initializeVariables repl VarASOrg = Some (VString '''')"
  by (simp_all add: initializeVariables_def Set_repl_def Var_defs)

lemma initializeVariables_all:
  "\<forall>v \<in> set geoip2Variables. initializeVariables repl v = Some (VString '''')"
  by (simp add: geoip2Variables_def initializeVariables_values)

lemma setVariables_values:
  "setVariables repl cc eu cn la lo sd an ao VarCountryCode = Some (VString cc)"
  "setVariables repl cc eu cn la lo sd an ao VarIsInEU = Some (VBool eu)"
  "setVariables repl cc eu cn la lo sd an ao VarCity = Some (VString cn)"
  "setVariables repl cc eu cn la lo sd an ao VarLatitude = Some (VFloat64 la)"
  "setVariables repl cc eu cn la lo sd an ao VarLongitude = Some (VFloat64 lo)"
  "setVariables repl cc eu cn la lo sd an ao VarSubdivisions = Some (VString sd)"
  "setVariables repl cc eu cn la lo sd an ao VarASN = Some (VUint64 an)"
  "setVariables repl cc eu cn la lo sd an ao VarASOrg = Some (VString ao)"
  by (simp_all add: setVariables_def Set_repl_def Var_defs)

text \<open>With a state and a valid address, \<open>performLookup\<close> runs its three steps.\<close>

lemma performLookup_valid:
  assumes "state m = Some st" and "getClientIP L m r = Inr ip"
  shows "performLookup L m r repl =
     (setVariables repl
        (fst (fst (lookupCountry st ip))) (isInEUOf st ip)
        (fst (fst (lookupCityData st ip (isInEUOf st ip))))
        (fst (snd (fst (lookupCityData st ip (isInEUOf st ip)))))
        (fst (snd (snd (fst (lookupCityData st ip (isInEUOf st ip))))))
        (snd (snd (snd (fst (lookupCityData st ip (isInEUOf st ip))))))
        (fst (fst (lookupASNData st ip))) (snd (fst (lookupASNData st ip))),
      snd (lookupCountry st ip) @ snd (lookupCityData st ip (isInEUOf st ip))
        @ snd (lookupASNData st ip))"
  using assms by (simp add: performLookup_def isInEUOf_def split: prod.splits)

lemma performLookup_no_address:
  "getClientIP L m r = Inl e \<Longrightarrow> performLookup L m r repl = (repl, [])"
  by (simp add: performLookup_def split: option.splits)

lemma lookupCountry_queried:
  "snd (lookupCountry st ip) = (if CountryDBHandler st \<noteq> None then [Country] else [])"
  by (simp add: lookupCountry_def split: sum.splits)

lemma lookupCityData_queried:
  "snd (lookupCityData st ip eu) =
     (case chooseCityLookup st eu of None \<Rightarrow> [] | Some f \<Rightarrow> [slotOf f])"
  by (simp add: lookupCityData_def split: option.splits sum.splits)

lemma lookupASNData_queried:
  "snd (lookupASNData st ip) = (if ASNDBHandler st \<noteq> None then [Network] else [])"
  by (simp add: lookupASNData_def split: sum.splits)

lemma lookupCityData_none:
  "chooseCityLookup st eu = None \<Longrightarrow> fst (lookupCityData st ip eu) = ('''', 0, 0, '''')"
  by (simp add: lookupCityData_def)

lemma isInEUOf_success:
  "Lookup st ip = Inr rec \<Longrightarrow>
     isInEUOf st ip = (Country_IsInEuropeanUnion rec \<or> RegisteredCountry_IsInEuropeanUnion rec)"
  by (auto simp: isInEUOf_def lookupCountry_def Lookup_def split: option.splits)

lemma isInEUOf_bound:
  "isInEUOf st ip \<Longrightarrow> CountryDBHandler st \<noteq> None \<and> (\<forall>e. Lookup st ip \<noteq> Inl e)"
  by (auto simp: isInEUOf_def lookupCountry_def split: if_splits sum.splits)

lemma lookupCityData_success:
  "cityLookupResult st ip = Some (Inr cityRecord) \<Longrightarrow>
     fst (lookupCityData st ip (isInEUOf st ip)) =
       (selectCityName (City_Names cityRecord), Location_Latitude cityRecord,
        Location_Longitude cityRecord, selectSubdivision (Subdivisions cityRecord))"
  by (auto simp: cityLookupResult_def lookupCityData_def split: option.splits)

lemma lookupCityData_failure:
  "cityLookupResult st ip = None \<or> cityLookupResult st ip = Some (Inl e) \<Longrightarrow>
     fst (lookupCityData st ip (isInEUOf st ip)) = ('''', 0, 0, '''')"
  by (auto simp: cityLookupResult_def lookupCityData_def split: option.splits)

lemma selectSubdivision_first:
  "selectSubdivision subs = (case subs of [] \<Rightarrow> '''' | s # rest \<Rightarrow> s)"
  by (simp add: selectSubdivision_def split: list.splits)

lemma getClientIP_parse_fails:
  "clientIPString L m r = Inr ipStr \<Longrightarrow> ParseIP L ipStr = None \<Longrightarrow>
     getClientIP L m r = Inl (Errorf ''invalid IP address: %s'' [AStr ipStr])"
  by (simp add: getClientIP_def)

lemma clientIPString_strict:
  "getSafetyLevel L m = Strict \<Longrightarrow>
     clientIPString L m r =
       (case SplitHostPort L (RemoteAddr r) of
          Inr (host, port) \<Rightarrow> Inr host
        | Inl err \<Rightarrow> if isMissingPort err then Inr (RemoteAddr r) else Inl err)"
  by (simp add: clientIPString_def)

lemma ToLower_strict: "ToLower L ''strict'' = ''strict''"
  by code_simp

lemma ToLower_OFF: "ToLower L ''OFF'' = ''off''"
  by code_simp

lemma ToLower_False: "ToLower L ''False'' = ''false''"
  by code_simp

subsection \<open>The city name\<close>

lemma rangeNames_filter:
  "rangeNames names cityName =
     (case filter (\<lambda>(k, name). name \<noteq> '''') names of [] \<Rightarrow> cityName | (k, name) # rest \<Rightarrow> name)"
  by (induction names cityName rule: rangeNames.induct) simp_all

lemma rangeNames_general:
  "(rangeNames names c = c \<and> (\<forall>(k, name) \<in> set names. name = ''''))
   \<or> (rangeNames names c \<noteq> '''' \<and> rangeNames names c \<in> snd ` set names)"
proof (induction names c rule: rangeNames.induct)
  case (1 cityName)
  then show ?case by simp
next
  case (2 k name rest cityName)
  show ?case
  proof (cases "name = ''''")
    case True
    with 2 show ?thesis by auto
  next
    case False
    then show ?thesis by simp
  qed
qed

lemma rangeNames_member:
  "(rangeNames names '''' = '''' \<and> (\<forall>(k, name) \<in> set names. name = ''''))
   \<or> (rangeNames names '''' \<noteq> '''' \<and> rangeNames names '''' \<in> snd ` set names)"
  by (rule rangeNames_general)

lemma selectCityName_cases:
  "selectCityName names =
     (case nonEmptyName names ''de'' of
        Some name \<Rightarrow> name
      | None \<Rightarrow>
          (case nonEmptyName names ''en'' of
             Some name \<Rightarrow> name
           | None \<Rightarrow> rangeNames names ''''))"
  by (simp add: selectCityName_def index2_def nonEmptyName_def split: option.splits)

lemma nonEmptyName_None_filter:
  assumes "distinct (map fst names)" and "nonEmptyName names key = None"
  shows "filter (\<lambda>(k, name). k \<noteq> key \<and> P k name \<and> name \<noteq> '''') names
         = filter (\<lambda>(k, name). P k name \<and> name \<noteq> '''') names"
proof (rule filter_cong [OF refl])
  fix x assume x: "x \<in> set names"
  obtain k name where kn: "x = (k, name)" by (cases x)
  have "k = key \<Longrightarrow> name = ''''"
  proof -
    assume "k = key"
    with x kn assms(1) have "map_of names key = Some name" by simp
    with assms(2) show "name = ''''"
      by (simp add: nonEmptyName_def split: if_splits)
  qed
  then show "(case x of (k, name) \<Rightarrow> k \<noteq> key \<and> P k name \<and> name \<noteq> '''')
           = (case x of (k, name) \<Rightarrow> P k name \<and> name \<noteq> '''')"
    using kn by auto
qed

lemma nonEmptyName_Some:
  "nonEmptyName names k = Some name \<Longrightarrow> name \<noteq> '''' \<and> (k, name) \<in> set names"
  by (auto simp: nonEmptyName_def split: option.splits if_splits dest: map_of_SomeD)

lemma selectCityName_empty_iff:
  assumes "distinct (map fst names)"
  shows "selectCityName names = '''' \<longleftrightarrow> (\<forall>(k, name) \<in> set names. name = '''')"
proof (cases "nonEmptyName names ''de''")
  case (Some name)
  then show ?thesis
    using nonEmptyName_Some [OF Some] by (auto simp: selectCityName_cases)
next
  case de: None
  show ?thesis
  proof (cases "nonEmptyName names ''en''")
    case (Some name)
    then show ?thesis
      using de nonEmptyName_Some [OF Some] by (auto simp: selectCityName_cases)
  next
    case None
    then show ?thesis
      using de rangeNames_member [of names] by (auto simp: selectCityName_cases)
  qed
qed

lemma same_entries_same_map:
  assumes "distinct (map fst names)" and "mset names' = mset names"
  shows "distinct (map fst names')" and "map_of names' = map_of names"
    and "set names' = set names"
proof -
  have "mset (map fst names') = mset (map fst names)"
    using assms(2) by (metis mset_map)
  then show d: "distinct (map fst names')"
    using assms(1) by (metis mset_eq_imp_distinct_iff)
  show s: "set names' = set names"
    using assms(2) by (rule mset_eq_setD)
  show "map_of names' = map_of names"
    using d assms(1) s by (simp add: map_of_inject_set)
qed

lemma selectCityName_order:
  assumes d: "distinct (map fst names)" and m: "mset names' = mset names"
    and u: "nonEmptyName names ''de'' \<noteq> None \<or> nonEmptyName names ''en'' \<noteq> None
            \<or> (\<forall>a \<in> snd ` set names. \<forall>b \<in> snd ` set names. a \<noteq> '''' \<and> b \<noteq> '''' \<longrightarrow> a = b)"
  shows "selectCityName names' = selectCityName names"
proof -
  have mp: "map_of names' = map_of names" and st: "set names' = set names"
    using same_entries_same_map [OF d m] by simp_all
  have ne: "nonEmptyName names' = nonEmptyName names"
    by (intro ext) (simp add: nonEmptyName_def mp)
  show ?thesis
  proof (cases "nonEmptyName names ''de'' \<noteq> None \<or> nonEmptyName names ''en'' \<noteq> None")
    case True
    then show ?thesis
      by (auto simp: selectCityName_cases ne split: option.splits)
  next
    case False
    with u have uniq: "\<forall>a \<in> snd ` set names. \<forall>b \<in> snd ` set names. a \<noteq> '''' \<and> b \<noteq> '''' \<longrightarrow> a = b"
      by blast
    have "rangeNames names' '''' = rangeNames names ''''"
    proof (cases "\<forall>(k, name) \<in> set names. name = ''''")
      case True
      then have e: "\<forall>x \<in> snd ` set names. x = ''''"
        by auto
      have "rangeNames names '''' = ''''"
        using rangeNames_member [of names] e by auto
      moreover have "rangeNames names' '''' = ''''"
        using rangeNames_member [of names'] e st by auto
      ultimately show ?thesis
        by simp
    next
      case nonempty: False
      then have a: "rangeNames names '''' \<noteq> '''' \<and> rangeNames names '''' \<in> snd ` set names"
        using rangeNames_member [of names] by blast
      from nonempty st have "\<not> (\<forall>(k, name) \<in> set names'. name = '''')"
        by simp
      then have b: "rangeNames names' '''' \<noteq> '''' \<and> rangeNames names' '''' \<in> snd ` set names"
        using rangeNames_member [of names'] st by auto
      show ?thesis
        using a b uniq by blast
    qed
    with False show ?thesis
      by (simp add: selectCityName_cases ne)
  qed
qed

subsection \<open>ServeHTTP, failed lookups and failed loads\<close>

lemma ServeHTTP_no_lookup:
  "\<not> isEnabled m \<or> state m = None \<or> getClientIP L m r = Inl e \<Longrightarrow>
     ServeHTTP L m r repl next =
       ((initializeVariables repl, []), next (initializeVariables repl))"
  by (auto simp: ServeHTTP_def Let_def performLookup_def split: option.splits)

lemma ServeHTTP_lookup:
  "isEnabled m \<Longrightarrow>
     ServeHTTP L m r repl next =
       (performLookup L m r (initializeVariables repl),
        next (fst (performLookup L m r (initializeVariables repl))))"
  by (simp add: ServeHTTP_def Let_def split: prod.splits)

lemma lookupCountry_failure:
  "CountryDBHandler st = None \<or> Lookup st ip = Inl e \<Longrightarrow>
     fst (lookupCountry st ip) = ('''', False)"
  by (auto simp: lookupCountry_def)

lemma lookupASNData_failure:
  "ASNDBHandler st = None \<or> LookupASN st ip = Inl e \<Longrightarrow>
     fst (lookupASNData st ip) = (0, '''')"
  by (auto simp: lookupASNData_def)

lemma getClientIP_state_update:
  "getClientIP L (m\<lparr>state := s\<rparr>) r = getClientIP L m r"
  by (simp add: getClientIP_def clientIPString_def getSafetyLevel_def)

lemma setVariables_defined:
  "\<forall>v \<in> set geoip2Variables. setVariables repl cc eu cn la lo sd an ao v \<noteq> None"
  by (simp add: geoip2Variables_def setVariables_values)

lemma loadDatabase_mandatory_failure:
  assumes "validateDatabaseFile F (CountryDatabasePath g) \<noteq> None
           \<or> (\<exists>e. Open F (CountryDatabasePath g) = Inl e)
           \<or> validateDatabaseFile F (CityDatabasePath g) \<noteq> None
           \<or> (\<exists>e. Open F (CityDatabasePath g) = Inl e)"
  shows "\<exists>err. loadDatabase F g = (Some err, g, [])"
  using assms
  by (auto simp: loadDatabase_def Let_def split: option.splits sum.splits)

subsection \<open>The city routing\<close>

lemma city_routing_valid:
  assumes st: "state m = Some st" and ip: "getClientIP L m r = Inr ip"
  shows "(let (repl', queried) = performLookup L m r repl;
              eu = (repl' VarIsInEU = Some (VBool True))
          in length (filter (\<lambda>s. s = RegionCity \<or> s = GlobalCity) queried) \<le> 1
           \<and> (RegionCity \<in> set queried \<longleftrightarrow> eu \<and> CityDBHandler st \<noteq> None)
           \<and> (GlobalCity \<in> set queried \<longleftrightarrow>
                \<not> (eu \<and> CityDBHandler st \<noteq> None) \<and> GlobalCityDBHandler st \<noteq> None)
           \<and> (RegionCity \<notin> set queried \<and> GlobalCity \<notin> set queried \<longrightarrow>
                repl' VarCity = Some (VString '''') \<and> repl' VarLatitude = Some (VFloat64 0)
                \<and> repl' VarLongitude = Some (VFloat64 0)
                \<and> repl' VarSubdivisions = Some (VString ''''))
           \<and> (CountryDBHandler st = None \<or> (\<exists>e. Lookup st ip = Inl e) \<longrightarrow>
                \<not> eu \<and> RegionCity \<notin> set queried
                \<and> (GlobalCity \<in> set queried \<longleftrightarrow> GlobalCityDBHandler st \<noteq> None)))"
proof -
  have q: "snd (performLookup L m r repl) =
      (if CountryDBHandler st \<noteq> None then [Country] else [])
      @ (case chooseCityLookup st (isInEUOf st ip) of None \<Rightarrow> [] | Some f \<Rightarrow> [slotOf f])
      @ (if ASNDBHandler st \<noteq> None then [Network] else [])"
    by (simp add: performLookup_valid [OF st ip] lookupCountry_queried
        lookupCityData_queried lookupASNData_queried)
  have eu: "(fst (performLookup L m r repl) VarIsInEU = Some (VBool True)) = isInEUOf st ip"
    by (simp add: performLookup_valid [OF st ip] setVariables_values)
  have none: "chooseCityLookup st (isInEUOf st ip) = None \<Longrightarrow>
      fst (performLookup L m r repl) VarCity = Some (VString '''')
      \<and> fst (performLookup L m r repl) VarLatitude = Some (VFloat64 0)
      \<and> fst (performLookup L m r repl) VarLongitude = Some (VFloat64 0)
      \<and> fst (performLookup L m r repl) VarSubdivisions = Some (VString '''')"
    by (simp add: performLookup_valid [OF st ip] setVariables_values lookupCityData_none)
  have fail: "isInEUOf st ip \<Longrightarrow> CountryDBHandler st \<noteq> None \<and> (\<forall>e. Lookup st ip \<noteq> Inl e)"
    by (rule isInEUOf_bound)
  obtain repl' queried where pl: "performLookup L m r repl = (repl', queried)"
    by (cases "performLookup L m r repl")
  show ?thesis
    using q eu none fail unfolding pl
    by (cases "isInEUOf st ip"; cases "CityDBHandler st"; cases "GlobalCityDBHandler st")
       (auto simp: chooseCityLookup_def)
qed



subsection \<open>Each lookup step reads its own handler\<close>

lemma lookupCountry_other_handlers:
  "lookupCountry (st\<lparr>ASNDBHandler := h\<rparr>) ip = lookupCountry st ip"
  "lookupCountry (st\<lparr>CityDBHandler := h1, GlobalCityDBHandler := h2\<rparr>) ip = lookupCountry st ip"
  by (simp_all add: lookupCountry_def Lookup_def)

lemma lookupASNData_other_handlers:
  "lookupASNData (st\<lparr>CountryDBHandler := h\<rparr>) ip = lookupASNData st ip"
  "lookupASNData (st\<lparr>CityDBHandler := h1, GlobalCityDBHandler := h2\<rparr>) ip = lookupASNData st ip"
  by (simp_all add: lookupASNData_def LookupASN_def)

lemma callCityLookup_other_handlers:
  "callCityLookup f (st\<lparr>ASNDBHandler := h\<rparr>) ip = callCityLookup f st ip"
  "callCityLookup f (st\<lparr>CountryDBHandler := h\<rparr>) ip = callCityLookup f st ip"
  by (cases f; simp add: LookupCity_def LookupGlobalCity_def)+

lemma lookupCityData_other_handlers:
  "lookupCityData (st\<lparr>ASNDBHandler := h\<rparr>) ip eu = lookupCityData st ip eu"
  "lookupCityData (st\<lparr>CountryDBHandler := h\<rparr>) ip eu = lookupCityData st ip eu"
  by (auto simp: lookupCityData_def chooseCityLookup_def callCityLookup_other_handlers)

lemma isInEUOf_other_handlers:
  "isInEUOf (st\<lparr>ASNDBHandler := h\<rparr>) ip = isInEUOf st ip"
  "isInEUOf (st\<lparr>CityDBHandler := h1, GlobalCityDBHandler := h2\<rparr>) ip = isInEUOf st ip"
  by (simp_all add: isInEUOf_def lookupCountry_other_handlers)

lemma performLookup_state:
  assumes "getClientIP L m r = Inr ip"
  shows "performLookup L (m\<lparr>state := Some st\<rparr>) r repl =
     (setVariables repl
        (fst (fst (lookupCountry st ip))) (isInEUOf st ip)
        (fst (fst (lookupCityData st ip (isInEUOf st ip))))
        (fst (snd (fst (lookupCityData st ip (isInEUOf st ip)))))
        (fst (snd (snd (fst (lookupCityData st ip (isInEUOf st ip))))))
        (snd (snd (snd (fst (lookupCityData st ip (isInEUOf st ip))))))
        (fst (fst (lookupASNData st ip))) (snd (fst (lookupASNData st ip))),
      snd (lookupCountry st ip) @ snd (lookupCityData st ip (isInEUOf st ip))
        @ snd (lookupASNData st ip))"
  by (rule performLookup_valid) (simp_all add: getClientIP_state_update assms)

subsection \<open>The stored data come from the reader queried\<close>

lemma chooseCityLookup_reader:
  "chooseCityLookup st eu = Some FLookupCity \<Longrightarrow>
     \<exists>db. CityDBHandler st = Some db \<and> callCityLookup FLookupCity st ip = decodeCity db ip"
  "chooseCityLookup st eu = Some FLookupGlobalCity \<Longrightarrow>
     \<exists>db. GlobalCityDBHandler st = Some db
          \<and> callCityLookup FLookupGlobalCity st ip = decodeCity db ip"
  by (auto simp: chooseCityLookup_def LookupCity_def LookupGlobalCity_def split: if_splits)

lemma cityVariablesFrom_setVariables:
  "fst (lookupCityData st ip eu) = (cn, la, lo, sd) \<Longrightarrow> chooseCityLookup st eu = Some f \<Longrightarrow>
     cityVariablesFrom (setVariables repl cc eu' cn la lo sd an ao) (callCityLookup f st ip)"
  by (auto simp: cityVariablesFrom_def lookupCityData_def setVariables_values split: sum.splits)

lemma performLookup_city_variables:
  assumes st: "state m = Some st" and ip: "getClientIP L m r = Inr ip"
    and f: "chooseCityLookup st (isInEUOf st ip) = Some f"
  shows "cityVariablesFrom (fst (performLookup L m r repl)) (callCityLookup f st ip)"
  by (simp add: performLookup_valid [OF st ip])
     (rule cityVariablesFrom_setVariables [OF _ f], simp)

lemma performLookup_asn_variables:
  assumes st: "state m = Some st" and ip: "getClientIP L m r = Inr ip"
    and db: "ASNDBHandler st = Some db"
  shows "asnVariablesFrom (fst (performLookup L m r repl)) (decodeASN db ip)"
  using db
  by (auto simp: performLookup_valid [OF st ip] asnVariablesFrom_def lookupASNData_def
      LookupASN_def setVariables_values split: sum.splits)

lemma city_routing_data:
  assumes st: "state m = Some st" and ip: "getClientIP L m r = Inr ip"
  shows "(RegionCity \<in> set (snd (performLookup L m r repl)) \<longrightarrow>
            (\<exists>db. CityDBHandler st = Some db
                 \<and> cityVariablesFrom (fst (performLookup L m r repl)) (decodeCity db ip)))
       \<and> (GlobalCity \<in> set (snd (performLookup L m r repl)) \<longrightarrow>
            (\<exists>db. GlobalCityDBHandler st = Some db
                 \<and> cityVariablesFrom (fst (performLookup L m r repl)) (decodeCity db ip)))"
proof -
  have q: "snd (performLookup L m r repl) =
      (if CountryDBHandler st \<noteq> None then [Country] else [])
      @ (case chooseCityLookup st (isInEUOf st ip) of None \<Rightarrow> [] | Some f \<Rightarrow> [slotOf f])
      @ (if ASNDBHandler st \<noteq> None then [Network] else [])"
    by (simp add: performLookup_valid [OF st ip] lookupCountry_queried
        lookupCityData_queried lookupASNData_queried)
  show ?thesis
  proof (cases "chooseCityLookup st (isInEUOf st ip)")
    case None
    then show ?thesis
      unfolding q by simp
  next
    case (Some f)
    note cv = performLookup_city_variables [OF st ip Some, of repl]
    show ?thesis
    proof (cases f)
      case FLookupCity
      with Some cv chooseCityLookup_reader(1) [of st "isInEUOf st ip" ip]
      show ?thesis
        unfolding q by auto
    next
      case FLookupGlobalCity
      with Some cv chooseCityLookup_reader(2) [of st "isInEUOf st ip" ip]
      show ?thesis
        unfolding q by auto
    qed
  qed
qed

lemma lookupCountry_success:
  "Lookup st ip = Inr countryRecord \<Longrightarrow>
     fst (fst (lookupCountry st ip)) = Country_ISOCode countryRecord"
  by (auto simp: lookupCountry_def Lookup_def split: option.splits)

lemma lookupASNData_success:
  "LookupASN st ip = Inr asnRecord \<Longrightarrow>
     fst (lookupASNData st ip)
       = (AutonomousSystemNumber asnRecord, AutonomousSystemOrganization asnRecord)"
  by (auto simp: lookupASNData_def LookupASN_def split: option.splits)

lemma isEnabled_state_update: "isEnabled (m\<lparr>state := s\<rparr>) = isEnabled m"
  by (simp add: isEnabled_def)

lemma ServeHTTP_state:
  "isEnabled m \<Longrightarrow>
     fst (ServeHTTP L (m\<lparr>state := Some st\<rparr>) r repl next)
       = performLookup L (m\<lparr>state := Some st\<rparr>) r (initializeVariables repl)"
  by (simp add: ServeHTTP_lookup isEnabled_state_update)

subsection \<open>The example configurations\<close>

lemmas lookup_defs = lookupCountry_def lookupCityData_def lookupASNData_def
  chooseCityLookup_def Lookup_def LookupCity_def LookupGlobalCity_def LookupASN_def
  selectCityName_def index2_def selectSubdivision_def isInEUOf_def

lemmas state_defs = fullState_def regionOnlyState_def countryFailsState_def
  allFailState_def allZeroState_def mkState_def countryReader_def cityReader_def
  asnReader_def failingReader_def zeroReader_def mkReader_def zeroCountry_def zeroCity_def
  zeroASN_def germany_def munich_def telekom_def

lemma state_handlerOf: "state (handlerOf st) = Some st"
  by (simp add: handlerOf_def)

lemma getSafetyLevel_handlerOf: "getSafetyLevel L (handlerOf st) = Strict"
  by (simp add: getSafetyLevel_def handlerOf_def ToLower_strict)

lemma getClientIP_example:
  "getClientIP exampleLib (handlerOf st) exampleRequest = Inr exampleIP"
  by (simp add: getClientIP_def clientIPString_def getSafetyLevel_handlerOf
      exampleLib_def exampleRequest_def exampleIP_def)

lemmas performLookup_example =
  performLookup_valid [OF state_handlerOf getClientIP_example]

lemma isEnabled_handlerOf: "isEnabled (handlerOf st)"
  by (simp add: isEnabled_def handlerOf_def)

lemma handlerOf_state_update: "(handlerOf st')\<lparr>state := Some st\<rparr> = handlerOf st"
  by (simp add: handlerOf_def)

lemma disabledHandlerOf_facts:
  "\<not> isEnabled (disabledHandlerOf st)"
  "getClientIP exampleLib (disabledHandlerOf st) exampleRequest = Inr exampleIP"
  by (simp_all add: isEnabled_def disabledHandlerOf_def getClientIP_def clientIPString_def
      exampleLib_def exampleRequest_def exampleIP_def)

section \<open>The claims\<close>




text \<open>
  C2. After a successful Country lookup the EU flag that \<open>performLookup\<close> stores is the
  disjunction of the country's and the registered country's \<open>IsInEuropeanUnion\<close>: it
  is true if and only if at least one of the two is.
\<close>

theorem C2_eu_flag_is_disjunction:
  assumes "state m = Some st" and "getClientIP L m r = Inr ip"
    and "Lookup st ip = Inr countryRecord"
  shows "fst (performLookup L m r repl) VarIsInEU =
           Some (VBool (Country_IsInEuropeanUnion countryRecord
                        \<or> RegisteredCountry_IsInEuropeanUnion countryRecord))
         \<and> (fst (performLookup L m r repl) VarIsInEU = Some (VBool True) \<longleftrightarrow>
              Country_IsInEuropeanUnion countryRecord
              \<or> RegisteredCountry_IsInEuropeanUnion countryRecord)"
  using assms
  by (simp add: performLookup_valid setVariables_values isInEUOf_success)

theorem C2_eu_flag_is_disjunction_witness:
  "state (handlerOf fullState) = Some fullState
   \<and> getClientIP exampleLib (handlerOf fullState) exampleRequest = Inr exampleIP
   \<and> Lookup fullState exampleIP = Inr germany
   \<and> Country_IsInEuropeanUnion germany \<and> \<not> RegisteredCountry_IsInEuropeanUnion germany
   \<and> fst (performLookup exampleLib (handlerOf fullState) exampleRequest emptyReplacer) VarIsInEU
       = Some (VBool True)"
proof -
  have h3: "Lookup fullState exampleIP = Inr germany"
    by (simp add: Lookup_def fullState_def mkState_def countryReader_def mkReader_def)
  show ?thesis
    using h3
      C2_eu_flag_is_disjunction [OF state_handlerOf getClientIP_example h3, of emptyReplacer]
    by (simp add: state_handlerOf getClientIP_example germany_def)
qed

text \<open>
  C3 (as amended). For a names map (entries with distinct keys, in the order in which the
  runtime enumerates them) the city name is the \<open>de\<close> name if it is present and not
  empty, else the \<open>en\<close> name if it is present and not empty, else the first name that is
  not empty among the other entries in the enumeration order of that run. It is empty
  exactly when every name is empty. Another enumeration of the same entries gives the same
  name whenever \<open>de\<close> or \<open>en\<close> has a non-empty name or all non-empty names are
  equal; this covers the four examples of the specification. Go does not fix the
  enumeration order of a map, so in the remaining case the selection is not determined
  by the map, as the counterexample shows.
\<close>

theorem C3_city_name_selection:
  assumes "distinct (map fst names)"
  shows "selectCityName names =
           (case nonEmptyName names ''de'' of
              Some name \<Rightarrow> name
            | None \<Rightarrow>
                (case nonEmptyName names ''en'' of
                   Some name \<Rightarrow> name
                 | None \<Rightarrow>
                     (case filter (\<lambda>(k, name). k \<noteq> ''de'' \<and> k \<noteq> ''en'' \<and> name \<noteq> '''') names of
                        [] \<Rightarrow> ''''
                      | (k, name) # rest \<Rightarrow> name)))
         \<and> (selectCityName names = '''' \<longleftrightarrow> (\<forall>(k, name) \<in> set names. name = ''''))
         \<and> (\<forall>names'. mset names' = mset names
               \<and> (nonEmptyName names ''de'' \<noteq> None \<or> nonEmptyName names ''en'' \<noteq> None
                  \<or> (\<forall>a \<in> snd ` set names. \<forall>b \<in> snd ` set names.
                        a \<noteq> '''' \<and> b \<noteq> '''' \<longrightarrow> a = b))
               \<longrightarrow> selectCityName names' = selectCityName names)"
proof (intro conjI allI impI)
  show "selectCityName names =
           (case nonEmptyName names ''de'' of
              Some name \<Rightarrow> name
            | None \<Rightarrow>
                (case nonEmptyName names ''en'' of
                   Some name \<Rightarrow> name
                 | None \<Rightarrow>
                     (case filter (\<lambda>(k, name). k \<noteq> ''de'' \<and> k \<noteq> ''en'' \<and> name \<noteq> '''') names of
                        [] \<Rightarrow> ''''
                      | (k, name) # rest \<Rightarrow> name)))"
  proof (cases "nonEmptyName names ''de''")
    case (Some name)
    then show ?thesis by (simp add: selectCityName_cases)
  next
    case de: None
    show ?thesis
    proof (cases "nonEmptyName names ''en''")
      case (Some name)
      with de show ?thesis by (simp add: selectCityName_cases)
    next
      case en: None
      have "filter (\<lambda>(k, name). k \<noteq> ''de'' \<and> k \<noteq> ''en'' \<and> name \<noteq> '''') names
            = filter (\<lambda>(k, name). k \<noteq> ''en'' \<and> name \<noteq> '''') names"
        using nonEmptyName_None_filter [OF assms de, of "\<lambda>k name. k \<noteq> ''en''"] by simp
      also have "\<dots> = filter (\<lambda>(k, name). name \<noteq> '''') names"
        using nonEmptyName_None_filter [OF assms en, of "\<lambda>k name. True"] by simp
      finally show ?thesis
        using de en by (simp add: selectCityName_cases rangeNames_filter)
    qed
  qed
next
  show "selectCityName names = '''' \<longleftrightarrow> (\<forall>(k, name) \<in> set names. name = '''')"
    using assms by (rule selectCityName_empty_iff)
next
  fix names'
  assume "mset names' = mset names
     \<and> (nonEmptyName names ''de'' \<noteq> None \<or> nonEmptyName names ''en'' \<noteq> None
        \<or> (\<forall>a \<in> snd ` set names. \<forall>b \<in> snd ` set names. a \<noteq> '''' \<and> b \<noteq> '''' \<longrightarrow> a = b))"
  then show "selectCityName names' = selectCityName names"
    using selectCityName_order [OF assms] by blast
qed

theorem C3_city_name_selection_witness:
  "distinct (map fst [(''de'', muenchen), (''en'', ''Munich'')])
   \<and> selectCityName [(''de'', muenchen), (''en'', ''Munich'')] = muenchen
   \<and> selectCityName [(''en'', ''Munich''), (''de'', muenchen)] = muenchen
   \<and> selectCityName [(''en'', ''Munich'')] = ''Munich''
   \<and> selectCityName [(''fr'', ''Munich'')] = ''Munich''
   \<and> selectCityName [] = ''''"
proof -
  have d: "distinct (map fst [(''de'', muenchen), (''en'', ''Munich'')])"
    by simp
  have m: "mset [(''en'', ''Munich''), (''de'', muenchen)]
             = mset [(''de'', muenchen), (''en'', ''Munich'')]"
    by simp
  have de: "nonEmptyName [(''de'', muenchen), (''en'', ''Munich'')] ''de'' = Some muenchen"
    by (simp add: nonEmptyName_def muenchen_def)
  note main = C3_city_name_selection [OF d]
  have 1: "selectCityName [(''de'', muenchen), (''en'', ''Munich'')] = muenchen"
    using main [THEN conjunct1] by (simp only: de option.case)
  have 2: "selectCityName [(''en'', ''Munich''), (''de'', muenchen)] = muenchen"
    using main [THEN conjunct2, THEN conjunct2, THEN spec,
        of "[(''en'', ''Munich''), (''de'', muenchen)]"] m de 1
    by simp
  have 3: "selectCityName [(''en'', ''Munich'')] = ''Munich''"
    using C3_city_name_selection [of "[(''en'', ''Munich'')]", THEN conjunct1]
    by (simp add: nonEmptyName_def)
  have 4: "selectCityName [(''fr'', ''Munich'')] = ''Munich''"
    using C3_city_name_selection [of "[(''fr'', ''Munich'')]", THEN conjunct1]
    by (simp add: nonEmptyName_def)
  have 5: "selectCityName [] = ''''"
    using C3_city_name_selection [of "[]", THEN conjunct1]
    by (simp add: nonEmptyName_def)
  show ?thesis
    using d 1 2 3 4 5 by simp
qed

text \<open>
  Two enumerations of the map with the French and the Italian name of the city: the
  selection follows the enumeration, so it is not a function of the map.
\<close>

theorem C3_enumeration_order_counterexample:
  "mset italianFirst = mset frenchFirst
   \<and> map_of italianFirst = map_of frenchFirst
   \<and> distinct (map fst frenchFirst)
   \<and> selectCityName frenchFirst = ''Munich''
   \<and> selectCityName italianFirst = ''Monaco di Baviera''"
proof -
  have "map_of italianFirst = map_of frenchFirst"
    by (intro ext) (simp add: italianFirst_def frenchFirst_def)
  then show ?thesis
    by (simp add: italianFirst_def frenchFirst_def selectCityName_def index2_def)
qed

text \<open>
  C4. When the string chosen as the client address does not parse as an IP address,
  \<open>ServeHTTP\<close> leaves every one of the eight variables at the empty string set by
  \<open>initializeVariables\<close> and queries no slot.
\<close>

theorem C4_malformed_address_all_absent:
  assumes "clientIPString L m r = Inr ipStr" and "ParseIP L ipStr = None"
  shows "fst (ServeHTTP L m r repl next) = (initializeVariables repl, [])
         \<and> (\<forall>v \<in> set geoip2Variables.
               fst (fst (ServeHTTP L m r repl next)) v = Some (VString ''''))"
proof -
  have "getClientIP L m r = Inl (Errorf ''invalid IP address: %s'' [AStr ipStr])"
    using assms by (rule getClientIP_parse_fails)
  then have "fst (ServeHTTP L m r repl next) = (initializeVariables repl, [])"
    by (simp add: ServeHTTP_def Let_def performLookup_no_address)
  then show ?thesis
    using initializeVariables_all by simp
qed

theorem C4_malformed_address_all_absent_witness:
  "clientIPString exampleLib (handlerOf fullState) emptyAddrRequest = Inr ''''
   \<and> ParseIP exampleLib '''' = None
   \<and> snd (fst (ServeHTTP exampleLib (handlerOf fullState) emptyAddrRequest emptyReplacer nextOK)) = []
   \<and> fst (fst (ServeHTTP exampleLib (handlerOf fullState) emptyAddrRequest emptyReplacer nextOK))
        VarCountryCode = Some (VString '''')
   \<and> fst (fst (ServeHTTP exampleLib (handlerOf fullState) emptyAddrRequest emptyReplacer nextOK))
        VarLatitude = Some (VString '''')"
proof -
  have h1: "clientIPString exampleLib (handlerOf fullState) emptyAddrRequest = Inr ''''"
    by (simp add: clientIPString_def getSafetyLevel_handlerOf exampleLib_def
        emptyAddrRequest_def isMissingPort_def)
  have h2: "ParseIP exampleLib '''' = None"
    by (simp add: exampleLib_def)
  show ?thesis
    using h1 h2 C4_malformed_address_all_absent [OF h1 h2, of emptyReplacer nextOK]
    by (simp add: geoip2Variables_def initializeVariables_values)
qed

text \<open>
  C5 (as amended). \<open>ServeHTTP\<close> returns what the next handler returns and nothing else,
  and all eight variables are set after it. When no lookup runs (lookups disabled, no
  state, or no valid client address) every variable holds the empty string and no slot is
  queried. When the lookup runs, each of the four string fields (country code, city,
  subdivision, AS organization) holds the string of the record found, and the empty string
  when its slot is unbound or its lookup failed: an absent string field is an empty
  string, which is also what a record with an empty string gives. Nothing is stated here
  about the EU flag, the coordinates and the AS number of a lookup that is absent.
\<close>

theorem C5_absent_strings_are_empty:
  "(let ((repl', queried), err) = ServeHTTP L m r repl next in
      err = next repl'
    \<and> (\<forall>v \<in> set geoip2Variables. repl' v \<noteq> None)
    \<and> (\<not> isEnabled m \<or> state m = None \<or> (\<exists>e. getClientIP L m r = Inl e) \<longrightarrow>
          queried = [] \<and> (\<forall>v \<in> set geoip2Variables. repl' v = Some (VString '''')))
    \<and> (\<forall>st ip. isEnabled m \<and> state m = Some st \<and> getClientIP L m r = Inr ip \<longrightarrow>
          (CountryDBHandler st = None \<or> (\<exists>e. Lookup st ip = Inl e) \<longrightarrow>
             repl' VarCountryCode = Some (VString ''''))
        \<and> (\<forall>countryRecord. Lookup st ip = Inr countryRecord \<longrightarrow>
             repl' VarCountryCode = Some (VString (Country_ISOCode countryRecord)))
        \<and> (cityLookupResult st ip = None \<or> (\<exists>e. cityLookupResult st ip = Some (Inl e)) \<longrightarrow>
             repl' VarCity = Some (VString '''')
             \<and> repl' VarSubdivisions = Some (VString ''''))
        \<and> (\<forall>cityRecord. cityLookupResult st ip = Some (Inr cityRecord) \<longrightarrow>
             repl' VarCity = Some (VString (selectCityName (City_Names cityRecord)))
             \<and> repl' VarSubdivisions
                 = Some (VString (selectSubdivision (Subdivisions cityRecord))))
        \<and> (ASNDBHandler st = None \<or> (\<exists>e. LookupASN st ip = Inl e) \<longrightarrow>
             repl' VarASOrg = Some (VString ''''))
        \<and> (\<forall>asnRecord. LookupASN st ip = Inr asnRecord \<longrightarrow>
             repl' VarASOrg = Some (VString (AutonomousSystemOrganization asnRecord)))))"
proof (cases "\<not> isEnabled m \<or> state m = None \<or> (\<exists>e. getClientIP L m r = Inl e)")
  case True
  then obtain e where "\<not> isEnabled m \<or> state m = None \<or> getClientIP L m r = Inl e"
    by blast
  then have "ServeHTTP L m r repl next =
      ((initializeVariables repl, []), next (initializeVariables repl))"
    by (rule ServeHTTP_no_lookup)
  then show ?thesis
    using True initializeVariables_all [of repl] by auto
next
  case False
  then obtain st ip where en: "isEnabled m" and st: "state m = Some st"
    and ip: "getClientIP L m r = Inr ip"
    by (cases "state m"; cases "getClientIP L m r") auto
  define out where "out = performLookup L m r (initializeVariables repl)"
  have pl: "out =
     (setVariables (initializeVariables repl)
        (fst (fst (lookupCountry st ip))) (isInEUOf st ip)
        (fst (fst (lookupCityData st ip (isInEUOf st ip))))
        (fst (snd (fst (lookupCityData st ip (isInEUOf st ip)))))
        (fst (snd (snd (fst (lookupCityData st ip (isInEUOf st ip))))))
        (snd (snd (snd (fst (lookupCityData st ip (isInEUOf st ip))))))
        (fst (fst (lookupASNData st ip))) (snd (fst (lookupASNData st ip))),
      snd (lookupCountry st ip) @ snd (lookupCityData st ip (isInEUOf st ip))
        @ snd (lookupASNData st ip))"
    unfolding out_def by (rule performLookup_valid [OF st ip])
  have serve: "ServeHTTP L m r repl next = (out, next (fst out))"
    unfolding out_def using en by (rule ServeHTTP_lookup)
  have defined: "\<forall>v \<in> set geoip2Variables. fst out v \<noteq> None"
    by (simp add: pl setVariables_defined)
  have country: "fst out VarCountryCode = Some (VString '''')"
    if "CountryDBHandler st = None \<or> (\<exists>e. Lookup st ip = Inl e)"
  proof -
    from that obtain e where "CountryDBHandler st = None \<or> Lookup st ip = Inl e"
      by blast
    then have "fst (lookupCountry st ip) = ('''', False)"
      by (rule lookupCountry_failure)
    then show ?thesis
      by (simp add: pl setVariables_values)
  qed
  have country': "fst out VarCountryCode = Some (VString (Country_ISOCode countryRecord))"
    if "Lookup st ip = Inr countryRecord" for countryRecord
    using that by (simp add: pl setVariables_values lookupCountry_success)
  have city: "fst out VarCity = Some (VString '''')
      \<and> fst out VarSubdivisions = Some (VString '''')"
    if "cityLookupResult st ip = None \<or> (\<exists>e. cityLookupResult st ip = Some (Inl e))"
  proof -
    from that obtain e
      where "cityLookupResult st ip = None \<or> cityLookupResult st ip = Some (Inl e)"
      by blast
    then have "fst (lookupCityData st ip (isInEUOf st ip)) = ('''', 0, 0, '''')"
      by (rule lookupCityData_failure)
    then show ?thesis
      by (simp add: pl setVariables_values)
  qed
  have city': "fst out VarCity = Some (VString (selectCityName (City_Names cityRecord)))
      \<and> fst out VarSubdivisions = Some (VString (selectSubdivision (Subdivisions cityRecord)))"
    if "cityLookupResult st ip = Some (Inr cityRecord)" for cityRecord
    using that by (simp add: pl setVariables_values lookupCityData_success)
  have asn: "fst out VarASOrg = Some (VString '''')"
    if "ASNDBHandler st = None \<or> (\<exists>e. LookupASN st ip = Inl e)"
  proof -
    from that obtain e where "ASNDBHandler st = None \<or> LookupASN st ip = Inl e"
      by blast
    then have "fst (lookupASNData st ip) = (0, '''')"
      by (rule lookupASNData_failure)
    then show ?thesis
      by (simp add: pl setVariables_values)
  qed
  have asn': "fst out VarASOrg = Some (VString (AutonomousSystemOrganization asnRecord))"
    if "LookupASN st ip = Inr asnRecord" for asnRecord
    using that by (simp add: pl setVariables_values lookupASNData_success)
  obtain repl' queried where o: "out = (repl', queried)"
    by (cases out)
  show ?thesis
    using en st ip defined country country' city city' asn asn'
    unfolding serve o by simp
qed

theorem C5_absent_strings_are_empty_witness:
  "isEnabled (handlerOf allFailState)
   \<and> state (handlerOf allFailState) = Some allFailState
   \<and> getClientIP exampleLib (handlerOf allFailState) exampleRequest = Inr exampleIP
   \<and> Lookup allFailState exampleIP = Inl (LibError ''lookup failed'')
   \<and> cityLookupResult allFailState exampleIP = Some (Inl (LibError ''lookup failed''))
   \<and> LookupASN allFailState exampleIP = Inl (LibError ''lookup failed'')
   \<and> fst (fst (ServeHTTP exampleLib (handlerOf allFailState) exampleRequest emptyReplacer
        nextOK)) VarCountryCode = Some (VString '''')
   \<and> fst (fst (ServeHTTP exampleLib (handlerOf allFailState) exampleRequest emptyReplacer
        nextOK)) VarCity = Some (VString '''')
   \<and> fst (fst (ServeHTTP exampleLib (handlerOf allFailState) exampleRequest emptyReplacer
        nextOK)) VarASOrg = Some (VString '''')
   \<and> snd (ServeHTTP exampleLib (handlerOf allFailState) exampleRequest emptyReplacer nextOK) = None
   \<and> Lookup fullState exampleIP = Inr germany
   \<and> LookupASN fullState exampleIP = Inr telekom
   \<and> fst (fst (ServeHTTP exampleLib (handlerOf fullState) exampleRequest emptyReplacer nextOK))
        VarCountryCode = Some (VString ''DE'')
   \<and> fst (fst (ServeHTTP exampleLib (handlerOf fullState) exampleRequest emptyReplacer nextOK))
        VarASOrg = Some (VString ''Deutsche Telekom AG'')
   \<and> getClientIP exampleLib (handlerOf allFailState) emptyAddrRequest
       = Inl (Errorf ''invalid IP address: %s'' [AStr ''''])
   \<and> fst (ServeHTTP exampleLib (handlerOf allFailState) emptyAddrRequest emptyReplacer nextOK)
       = (initializeVariables emptyReplacer, [])"
proof -
  have h: "isEnabled (handlerOf st) \<and> state (handlerOf st) = Some st
      \<and> getClientIP exampleLib (handlerOf st) exampleRequest = Inr exampleIP" for st
    by (simp add: isEnabled_handlerOf state_handlerOf getClientIP_example)
  have fails: "Lookup allFailState exampleIP = Inl (LibError ''lookup failed'')"
    "cityLookupResult allFailState exampleIP = Some (Inl (LibError ''lookup failed''))"
    "LookupASN allFailState exampleIP = Inl (LibError ''lookup failed'')"
    by (simp_all add: cityLookupResult_def lookup_defs state_defs)
  have ok: "Lookup fullState exampleIP = Inr germany"
    "LookupASN fullState exampleIP = Inr telekom"
    by (simp_all add: lookup_defs state_defs)
  have bad: "getClientIP exampleLib (handlerOf allFailState) emptyAddrRequest
       = Inl (Errorf ''invalid IP address: %s'' [AStr ''''])"
    by (simp add: getClientIP_def clientIPString_def getSafetyLevel_handlerOf exampleLib_def
        emptyAddrRequest_def isMissingPort_def)
  have none: "fst (ServeHTTP exampleLib (handlerOf allFailState) emptyAddrRequest
       emptyReplacer nextOK) = (initializeVariables emptyReplacer, [])"
    using bad
      C5_absent_strings_are_empty [of exampleLib "handlerOf allFailState" emptyAddrRequest
        emptyReplacer nextOK]
    by (simp add: ServeHTTP_no_lookup [OF disjI2 [OF disjI2 [OF bad]]])
  have abs: "fst (fst (ServeHTTP exampleLib (handlerOf allFailState) exampleRequest emptyReplacer
        nextOK)) VarCountryCode = Some (VString '''')
    \<and> fst (fst (ServeHTTP exampleLib (handlerOf allFailState) exampleRequest emptyReplacer
        nextOK)) VarCity = Some (VString '''')
    \<and> fst (fst (ServeHTTP exampleLib (handlerOf allFailState) exampleRequest emptyReplacer
        nextOK)) VarASOrg = Some (VString '''')
    \<and> snd (ServeHTTP exampleLib (handlerOf allFailState) exampleRequest emptyReplacer nextOK)
        = None"
    using h [of allFailState] fails
      C5_absent_strings_are_empty [of exampleLib "handlerOf allFailState" exampleRequest
        emptyReplacer nextOK]
    by (simp add: nextOK_def split: prod.splits)
  have pres: "fst (fst (ServeHTTP exampleLib (handlerOf fullState) exampleRequest emptyReplacer
        nextOK)) VarCountryCode = Some (VString ''DE'')
    \<and> fst (fst (ServeHTTP exampleLib (handlerOf fullState) exampleRequest emptyReplacer nextOK))
        VarASOrg = Some (VString ''Deutsche Telekom AG'')"
    using h [of fullState] ok
      C5_absent_strings_are_empty [of exampleLib "handlerOf fullState" exampleRequest
        emptyReplacer nextOK]
    by (simp add: germany_def telekom_def split: prod.splits)
  show ?thesis
    using h [of allFailState] fails ok bad none abs pres by simp
qed

text \<open>
  A state in which every lookup fails and a state in which every lookup succeeds with
  empty and zero values give the same variables, so no caller can tell the two apart.
\<close>

theorem C5_absent_equals_empty_counterexample:
  "Lookup allFailState exampleIP = Inl (LibError ''lookup failed'')
   \<and> Lookup allZeroState exampleIP = Inr zeroCountry
   \<and> LookupGlobalCity allFailState exampleIP = Inl (LibError ''lookup failed'')
   \<and> LookupGlobalCity allZeroState exampleIP = Inr zeroCity
   \<and> LookupASN allFailState exampleIP = Inl (LibError ''lookup failed'')
   \<and> LookupASN allZeroState exampleIP = Inr zeroASN
   \<and> fst (fst (ServeHTTP exampleLib (handlerOf allFailState) exampleRequest emptyReplacer
        nextOK)) VarCountryCode = Some (VString '''')
   \<and> fst (fst (ServeHTTP exampleLib (handlerOf allZeroState) exampleRequest emptyReplacer
        nextOK)) VarCountryCode = Some (VString '''')
   \<and> fst (ServeHTTP exampleLib (handlerOf allFailState) exampleRequest emptyReplacer nextOK)
       = fst (ServeHTTP exampleLib (handlerOf allZeroState) exampleRequest emptyReplacer nextOK)"
  by (simp add: ServeHTTP_lookup [OF isEnabled_handlerOf] performLookup_example lookup_defs
      state_defs setVariables_values)

text \<open>
  C6 (as amended). With lookups enabled, the state available and a valid client address,
  the Network slot is queried whenever \<open>ASNDBHandler\<close> is bound, whatever the other
  handlers are and whatever their lookups return, and the ASN variables hold what its
  reader returns for the address. Each slot is queried by its own rule alone (Country and
  Network when bound, a city slot by the routing of C1), so no failure aborts another
  lookup. The variables of a slot change with no handler but its own, with one exception
  that the routing makes: the city variables stay the same under a change of the Country
  handler as long as the EU flag stays the same. When the Country slot is unbound or
  its lookup fails, the country code is empty and the EU flag is not true, so RegionCity is
  not queried: the city variables are those of the GlobalCity reader when it is bound, and
  city name and subdivision are empty when it is not.
\<close>

theorem C6_network_lookup_unconditional:
  assumes en: "isEnabled m" and ip: "getClientIP L m r = Inr ip"
  shows
    "(let served = (\<lambda>st. fst (ServeHTTP L (m\<lparr>state := Some st\<rparr>) r repl next)) in
       (ASNDBHandler st \<noteq> None \<longrightarrow> Network \<in> set (snd (served st)))
     \<and> (\<forall>db. ASNDBHandler st = Some db \<longrightarrow>
           asnVariablesFrom (fst (served st)) (decodeASN db ip))
     \<and> (Country \<in> set (snd (served st)) \<longleftrightarrow> CountryDBHandler st \<noteq> None)
     \<and> (Network \<in> set (snd (served st)) \<longleftrightarrow> ASNDBHandler st \<noteq> None)
     \<and> (RegionCity \<in> set (snd (served st)) \<or> GlobalCity \<in> set (snd (served st))
          \<longleftrightarrow> chooseCityLookup st (isInEUOf st ip) \<noteq> None)
     \<and> (\<forall>h. \<forall>v \<in> {VarCountryCode, VarIsInEU, VarCity, VarLatitude, VarLongitude,
                     VarSubdivisions}.
           fst (served (st\<lparr>ASNDBHandler := h\<rparr>)) v = fst (served st) v)
     \<and> (\<forall>h1 h2. \<forall>v \<in> {VarCountryCode, VarIsInEU, VarASN, VarASOrg}.
           fst (served (st\<lparr>CityDBHandler := h1, GlobalCityDBHandler := h2\<rparr>)) v
             = fst (served st) v)
     \<and> (\<forall>h. (\<forall>v \<in> {VarASN, VarASOrg}.
                fst (served (st\<lparr>CountryDBHandler := h\<rparr>)) v = fst (served st) v)
            \<and> (isInEUOf (st\<lparr>CountryDBHandler := h\<rparr>) ip = isInEUOf st ip \<longrightarrow>
                 (\<forall>v \<in> {VarCity, VarLatitude, VarLongitude, VarSubdivisions}.
                    fst (served (st\<lparr>CountryDBHandler := h\<rparr>)) v = fst (served st) v)))
     \<and> (CountryDBHandler st = None \<or> (\<exists>e. Lookup st ip = Inl e) \<longrightarrow>
           fst (served st) VarCountryCode = Some (VString '''')
         \<and> fst (served st) VarIsInEU \<noteq> Some (VBool True)
         \<and> RegionCity \<notin> set (snd (served st))
         \<and> (GlobalCity \<in> set (snd (served st)) \<longleftrightarrow> GlobalCityDBHandler st \<noteq> None)
         \<and> (\<forall>db. GlobalCityDBHandler st = Some db \<longrightarrow>
               cityVariablesFrom (fst (served st)) (decodeCity db ip))
         \<and> (GlobalCityDBHandler st = None \<longrightarrow>
               fst (served st) VarCity = Some (VString '''')
               \<and> fst (served st) VarSubdivisions = Some (VString ''''))))"
proof -
  let ?P = "\<lambda>st. performLookup L (m\<lparr>state := Some st\<rparr>) r (initializeVariables repl)"
  have served: "fst (ServeHTTP L (m\<lparr>state := Some st'\<rparr>) r repl next) = ?P st'" for st'
    using en by (rule ServeHTTP_state)
  note pl = performLookup_state [OF ip, where repl = "initializeVariables repl"]
  have st': "state (m\<lparr>state := Some st\<rparr>) = Some st"
    by simp
  have ip': "getClientIP L (m\<lparr>state := Some st\<rparr>) r = Inr ip"
    by (simp add: getClientIP_state_update ip)
  have q: "snd (?P st) =
      (if CountryDBHandler st \<noteq> None then [Country] else [])
      @ (case chooseCityLookup st (isInEUOf st ip) of None \<Rightarrow> [] | Some f \<Rightarrow> [slotOf f])
      @ (if ASNDBHandler st \<noteq> None then [Network] else [])"
    by (simp add: pl lookupCountry_queried lookupCityData_queried lookupASNData_queried)
  have slots: "(ASNDBHandler st \<noteq> None \<longrightarrow> Network \<in> set (snd (?P st)))
     \<and> (Country \<in> set (snd (?P st)) \<longleftrightarrow> CountryDBHandler st \<noteq> None)
     \<and> (Network \<in> set (snd (?P st)) \<longleftrightarrow> ASNDBHandler st \<noteq> None)
     \<and> (RegionCity \<in> set (snd (?P st)) \<or> GlobalCity \<in> set (snd (?P st))
          \<longleftrightarrow> chooseCityLookup st (isInEUOf st ip) \<noteq> None)"
  proof (cases "chooseCityLookup st (isInEUOf st ip)")
    case None
    then show ?thesis
      unfolding q by simp
  next
    case (Some f)
    then show ?thesis
      unfolding q by (cases f) simp_all
  qed
  have asnv: "\<forall>db. ASNDBHandler st = Some db \<longrightarrow>
      asnVariablesFrom (fst (?P st)) (decodeASN db ip)"
    using performLookup_asn_variables [OF st' ip'] by blast
  have asn: "\<forall>h. \<forall>v \<in> {VarCountryCode, VarIsInEU, VarCity, VarLatitude, VarLongitude,
                     VarSubdivisions}.
           fst (?P (st\<lparr>ASNDBHandler := h\<rparr>)) v = fst (?P st) v"
    by (simp add: pl setVariables_values lookupCountry_other_handlers
        lookupCityData_other_handlers isInEUOf_other_handlers)
  have city: "\<forall>h1 h2. \<forall>v \<in> {VarCountryCode, VarIsInEU, VarASN, VarASOrg}.
           fst (?P (st\<lparr>CityDBHandler := h1, GlobalCityDBHandler := h2\<rparr>)) v = fst (?P st) v"
    by (simp add: pl setVariables_values lookupCountry_other_handlers
        lookupASNData_other_handlers isInEUOf_other_handlers)
  have country: "\<forall>h. (\<forall>v \<in> {VarASN, VarASOrg}.
                fst (?P (st\<lparr>CountryDBHandler := h\<rparr>)) v = fst (?P st) v)
            \<and> (isInEUOf (st\<lparr>CountryDBHandler := h\<rparr>) ip = isInEUOf st ip \<longrightarrow>
                 (\<forall>v \<in> {VarCity, VarLatitude, VarLongitude, VarSubdivisions}.
                    fst (?P (st\<lparr>CountryDBHandler := h\<rparr>)) v = fst (?P st) v))"
    by (simp add: pl setVariables_values lookupASNData_other_handlers
        lookupCityData_other_handlers)
  have failed: "fst (?P st) VarCountryCode = Some (VString '''')
         \<and> fst (?P st) VarIsInEU \<noteq> Some (VBool True)
         \<and> RegionCity \<notin> set (snd (?P st))
         \<and> (GlobalCity \<in> set (snd (?P st)) \<longleftrightarrow> GlobalCityDBHandler st \<noteq> None)
         \<and> (\<forall>db. GlobalCityDBHandler st = Some db \<longrightarrow>
               cityVariablesFrom (fst (?P st)) (decodeCity db ip))
         \<and> (GlobalCityDBHandler st = None \<longrightarrow>
               fst (?P st) VarCity = Some (VString '''')
               \<and> fst (?P st) VarSubdivisions = Some (VString ''''))"
    if f: "CountryDBHandler st = None \<or> (\<exists>e. Lookup st ip = Inl e)"
  proof -
    obtain repl' queried where o: "?P st = (repl', queried)"
      by (cases "?P st")
    from f obtain e where "CountryDBHandler st = None \<or> Lookup st ip = Inl e"
      by blast
    then have "fst (lookupCountry st ip) = ('''', False)"
      by (rule lookupCountry_failure)
    then have cc: "fst (?P st) VarCountryCode = Some (VString '''')"
      by (simp add: pl setVariables_values)
    have routing: "(repl' VarIsInEU \<noteq> Some (VBool True)) \<and> RegionCity \<notin> set queried
        \<and> (GlobalCity \<in> set queried \<longleftrightarrow> GlobalCityDBHandler st \<noteq> None)
        \<and> (RegionCity \<notin> set queried \<and> GlobalCity \<notin> set queried \<longrightarrow>
              repl' VarCity = Some (VString '''')
              \<and> repl' VarSubdivisions = Some (VString ''''))"
      using f city_routing_valid [OF st' ip', of "initializeVariables repl"]
      unfolding o Let_def prod.case by blast
    have data: "GlobalCity \<in> set queried \<longrightarrow>
        (\<exists>db. GlobalCityDBHandler st = Some db \<and> cityVariablesFrom repl' (decodeCity db ip))"
      using city_routing_data [OF st' ip', of "initializeVariables repl"]
      unfolding o fst_conv snd_conv by blast
    show ?thesis
      using cc routing data unfolding o fst_conv snd_conv by auto
  qed
  show ?thesis
    unfolding Let_def served
    using slots asnv asn city country failed
    by (intro conjI impI) blast+
qed

theorem C6_network_lookup_unconditional_witness:
  "isEnabled (handlerOf allFailState)
   \<and> getClientIP exampleLib (handlerOf allFailState) exampleRequest = Inr exampleIP
   \<and> ASNDBHandler allFailState = Some failingReader
   \<and> Lookup allFailState exampleIP = Inl (LibError ''lookup failed'')
   \<and> LookupGlobalCity allFailState exampleIP = Inl (LibError ''lookup failed'')
   \<and> snd (fst (ServeHTTP exampleLib (handlerOf allFailState) exampleRequest emptyReplacer
        nextOK)) = [Country, GlobalCity, Network]
   \<and> ASNDBHandler fullState = Some asnReader
   \<and> decodeASN asnReader exampleIP = Inr telekom
   \<and> fst (fst (ServeHTTP exampleLib (handlerOf fullState) exampleRequest emptyReplacer nextOK))
        VarASN = Some (VUint64 3320)
   \<and> fst (fst (ServeHTTP exampleLib (handlerOf fullState) exampleRequest emptyReplacer nextOK))
        VarASOrg = Some (VString ''Deutsche Telekom AG'')"
proof -
  have h1: "getClientIP exampleLib (handlerOf st) exampleRequest = Inr exampleIP" for st
    by (rule getClientIP_example)
  have h2: "ASNDBHandler allFailState = Some failingReader"
    "ASNDBHandler fullState = Some asnReader"
    "decodeASN asnReader exampleIP = Inr telekom"
    by (simp_all add: allFailState_def fullState_def mkState_def asnReader_def mkReader_def)
  have h3: "Lookup allFailState exampleIP = Inl (LibError ''lookup failed'')"
    "LookupGlobalCity allFailState exampleIP = Inl (LibError ''lookup failed'')"
    by (simp_all add: lookup_defs state_defs)
  have a3: "CountryDBHandler allFailState = None
      \<or> (\<exists>e. Lookup allFailState exampleIP = Inl e)"
    using h3 by simp
  have g: "GlobalCityDBHandler allFailState \<noteq> None" "CountryDBHandler allFailState \<noteq> None"
    by (simp_all add: allFailState_def mkState_def)
  note main = C6_network_lookup_unconditional [unfolded Let_def]
  have net: "Network \<in> set (snd (fst (ServeHTTP exampleLib (handlerOf allFailState)
      exampleRequest emptyReplacer nextOK)))"
    using h2 main [of "handlerOf allFailState" exampleLib exampleRequest exampleIP
        allFailState emptyReplacer nextOK, OF isEnabled_handlerOf h1, THEN conjunct1]
    by (simp add: handlerOf_state_update)
  have q: "snd (fst (ServeHTTP exampleLib (handlerOf allFailState) exampleRequest emptyReplacer
        nextOK)) = [Country, GlobalCity, Network]"
    by (simp add: ServeHTTP_lookup [OF isEnabled_handlerOf] performLookup_example lookup_defs
        state_defs)
  have v: "asnVariablesFrom (fst (fst (ServeHTTP exampleLib (handlerOf fullState)
      exampleRequest emptyReplacer nextOK))) (Inr telekom)"
    using h2 main [of "handlerOf fullState" exampleLib exampleRequest exampleIP
        fullState emptyReplacer nextOK, OF isEnabled_handlerOf h1, THEN conjunct2,
        THEN conjunct1]
    by (simp add: handlerOf_state_update)
  then have v': "fst (fst (ServeHTTP exampleLib (handlerOf fullState) exampleRequest
      emptyReplacer nextOK)) VarASN = Some (VUint64 3320)
    \<and> fst (fst (ServeHTTP exampleLib (handlerOf fullState) exampleRequest emptyReplacer nextOK))
        VarASOrg = Some (VString ''Deutsche Telekom AG'')"
    by (simp add: asnVariablesFrom_def telekom_def)
  show ?thesis
    using h1 [of allFailState] h2 h3 net q v' isEnabled_handlerOf [of allFailState] by simp
qed

text \<open>
  A failed Country lookup for an EU address, with the Europe city database bound and the
  global one not: the city variable is lost although the city lookup itself would succeed.
  And with lookups switched off the Network slot is not queried although it is bound.
\<close>

theorem C6_country_failure_counterexample:
  "countryFailsState = regionOnlyState\<lparr>CountryDBHandler := Some failingReader\<rparr>
   \<and> isEnabled (handlerOf regionOnlyState)
   \<and> Lookup regionOnlyState exampleIP = Inr germany
   \<and> Lookup countryFailsState exampleIP = Inl (LibError ''lookup failed'')
   \<and> LookupCity regionOnlyState exampleIP = Inr munich
   \<and> LookupCity countryFailsState exampleIP = Inr munich
   \<and> fst (fst (ServeHTTP exampleLib (handlerOf regionOnlyState) exampleRequest emptyReplacer
        nextOK)) VarCity = Some (VString muenchen)
   \<and> fst (fst (ServeHTTP exampleLib (handlerOf countryFailsState) exampleRequest emptyReplacer
        nextOK)) VarCity = Some (VString '''')
   \<and> snd (fst (ServeHTTP exampleLib (handlerOf regionOnlyState) exampleRequest emptyReplacer
        nextOK)) = [Country, RegionCity]
   \<and> snd (fst (ServeHTTP exampleLib (handlerOf countryFailsState) exampleRequest emptyReplacer
        nextOK)) = [Country]
   \<and> getClientIP exampleLib (disabledHandlerOf fullState) exampleRequest = Inr exampleIP
   \<and> ASNDBHandler fullState = Some asnReader
   \<and> snd (fst (ServeHTTP exampleLib (disabledHandlerOf fullState) exampleRequest emptyReplacer
        nextOK)) = []"
proof -
  have dis: "ServeHTTP exampleLib (disabledHandlerOf fullState) exampleRequest emptyReplacer
      nextOK = ((initializeVariables emptyReplacer, []), nextOK (initializeVariables emptyReplacer))"
    by (rule ServeHTTP_no_lookup [OF disjI1 [OF disabledHandlerOf_facts(1)]])
  have a: "ASNDBHandler fullState = Some asnReader"
    by (simp add: fullState_def mkState_def)
  have main: "countryFailsState = regionOnlyState\<lparr>CountryDBHandler := Some failingReader\<rparr>"
    "Lookup regionOnlyState exampleIP = Inr germany"
    "Lookup countryFailsState exampleIP = Inl (LibError ''lookup failed'')"
    "LookupCity regionOnlyState exampleIP = Inr munich"
    "LookupCity countryFailsState exampleIP = Inr munich"
    "fst (fst (ServeHTTP exampleLib (handlerOf regionOnlyState) exampleRequest emptyReplacer
        nextOK)) VarCity = Some (VString muenchen)"
    "fst (fst (ServeHTTP exampleLib (handlerOf countryFailsState) exampleRequest emptyReplacer
        nextOK)) VarCity = Some (VString '''')"
    "snd (fst (ServeHTTP exampleLib (handlerOf regionOnlyState) exampleRequest emptyReplacer
        nextOK)) = [Country, RegionCity]"
    "snd (fst (ServeHTTP exampleLib (handlerOf countryFailsState) exampleRequest emptyReplacer
        nextOK)) = [Country]"
    by (simp_all add: ServeHTTP_lookup [OF isEnabled_handlerOf] performLookup_example
        lookup_defs state_defs setVariables_values muenchen_def)
  show ?thesis
    using dis a main by (simp add: disabledHandlerOf_facts isEnabled_handlerOf)
qed

text \<open>
  C7. After a successful city lookup the subdivision variable holds the code of the first
  element of \<open>Subdivisions\<close>, whatever follows it in the list, and the empty string
  when the list is empty.
\<close>

theorem C7_first_subdivision_reported:
  assumes "state m = Some st" and "getClientIP L m r = Inr ip"
    and "cityLookupResult st ip = Some (Inr cityRecord)"
  shows "fst (performLookup L m r repl) VarSubdivisions =
           Some (VString (case Subdivisions cityRecord of [] \<Rightarrow> '''' | s # rest \<Rightarrow> s))"
  using assms
  by (simp add: performLookup_valid setVariables_values lookupCityData_success
      selectSubdivision_first)

theorem C7_first_subdivision_reported_witness:
  "state (handlerOf fullState) = Some fullState
   \<and> getClientIP exampleLib (handlerOf fullState) exampleRequest = Inr exampleIP
   \<and> cityLookupResult fullState exampleIP = Some (Inr munich)
   \<and> Subdivisions munich = [''BY'', ''091'']
   \<and> fst (performLookup exampleLib (handlerOf fullState) exampleRequest emptyReplacer)
         VarSubdivisions = Some (VString ''BY'')"
proof -
  have h3: "cityLookupResult fullState exampleIP = Some (Inr munich)"
    by (simp add: cityLookupResult_def lookup_defs fullState_def mkState_def
        countryReader_def cityReader_def mkReader_def germany_def)
  have h4: "Subdivisions munich = [''BY'', ''091'']"
    by (simp add: munich_def)
  show ?thesis
    using h3 h4
      C7_first_subdivision_reported [OF state_handlerOf getClientIP_example h3,
        of emptyReplacer]
    by (simp add: state_handlerOf getClientIP_example)
qed

text \<open>
  C8 (as amended). When the Country database file fails validation or \<open>maxminddb.Open\<close>
  fails on it, \<open>loadDatabase\<close> returns an error, closes no reader and leaves the state
  as it was, and so does a scheduled reload: \<open>GetDatabaseInfo\<close> and the four lookups,
  hence \<open>performLookup\<close>, give the same results as before the attempt. The same holds
  when the Europe city database (the RegionCity slot) fails validation or opening: that
  slot is mandatory too. When both validate and open, the load succeeds whatever happens to
  the other two: the global city and the ASN handler are the reader opened, or nil when
  opening (for ASN also: validation) fails.
\<close>

theorem C8_failed_mandatory_load_keeps_state:
  "(validateDatabaseFile F (CountryDatabasePath g) \<noteq> None
      \<or> (\<exists>e. Open F (CountryDatabasePath g) = Inl e) \<longrightarrow>
        fst (loadDatabase F g) \<noteq> None
      \<and> fst (snd (loadDatabase F g)) = g
      \<and> snd (snd (loadDatabase F g)) = []
      \<and> performScheduledReload F g = (g, [])
      \<and> GetDatabaseInfo (fst (snd (loadDatabase F g))) = GetDatabaseInfo g
      \<and> Lookup (fst (snd (loadDatabase F g))) ip = Lookup g ip
      \<and> LookupCity (fst (snd (loadDatabase F g))) ip = LookupCity g ip
      \<and> LookupGlobalCity (fst (snd (loadDatabase F g))) ip = LookupGlobalCity g ip
      \<and> LookupASN (fst (snd (loadDatabase F g))) ip = LookupASN g ip
      \<and> performLookup L (m\<lparr>state := Some (fst (snd (loadDatabase F g)))\<rparr>) r repl
          = performLookup L (m\<lparr>state := Some g\<rparr>) r repl)
   \<and> (validateDatabaseFile F (CityDatabasePath g) \<noteq> None
      \<or> (\<exists>e. Open F (CityDatabasePath g) = Inl e) \<longrightarrow>
        fst (loadDatabase F g) \<noteq> None
      \<and> fst (snd (loadDatabase F g)) = g
      \<and> snd (snd (loadDatabase F g)) = []
      \<and> performScheduledReload F g = (g, [])
      \<and> GetDatabaseInfo (fst (snd (loadDatabase F g))) = GetDatabaseInfo g
      \<and> Lookup (fst (snd (loadDatabase F g))) ip = Lookup g ip
      \<and> LookupCity (fst (snd (loadDatabase F g))) ip = LookupCity g ip
      \<and> LookupGlobalCity (fst (snd (loadDatabase F g))) ip = LookupGlobalCity g ip
      \<and> LookupASN (fst (snd (loadDatabase F g))) ip = LookupASN g ip
      \<and> performLookup L (m\<lparr>state := Some (fst (snd (loadDatabase F g)))\<rparr>) r repl
          = performLookup L (m\<lparr>state := Some g\<rparr>) r repl)
   \<and> (\<forall>newCountryDB newCityDB.
         validateDatabaseFile F (CountryDatabasePath g) = None
         \<and> validateDatabaseFile F (CityDatabasePath g) = None
         \<and> Open F (CountryDatabasePath g) = Inr newCountryDB
         \<and> Open F (CityDatabasePath g) = Inr newCityDB \<longrightarrow>
           loadDatabase F g =
             (None,
              g\<lparr>CountryDBHandler := Some newCountryDB,
                CityDBHandler := Some newCityDB,
                GlobalCityDBHandler :=
                  (case Open F (GlobalCityDatabasePath g) of
                     Inl e \<Rightarrow> None
                   | Inr db \<Rightarrow> Some db),
                ASNDBHandler :=
                  (if ASNDatabasePath g \<noteq> ''''
                      \<and> validateDatabaseFile F (ASNDatabasePath g) = None
                   then (case Open F (ASNDatabasePath g) of Inl e \<Rightarrow> None | Inr db \<Rightarrow> Some db)
                   else None)\<rparr>,
              oldHandlers g))"
proof (intro conjI allI impI)
  assume "validateDatabaseFile F (CountryDatabasePath g) \<noteq> None
      \<or> (\<exists>e. Open F (CountryDatabasePath g) = Inl e)"
  then obtain err where l: "loadDatabase F g = (Some err, g, [])"
    using loadDatabase_mandatory_failure [of F g] by blast
  show "fst (loadDatabase F g) \<noteq> None"
    and "fst (snd (loadDatabase F g)) = g"
    and "snd (snd (loadDatabase F g)) = []"
    and "performScheduledReload F g = (g, [])"
    and "GetDatabaseInfo (fst (snd (loadDatabase F g))) = GetDatabaseInfo g"
    and "Lookup (fst (snd (loadDatabase F g))) ip = Lookup g ip"
    and "LookupCity (fst (snd (loadDatabase F g))) ip = LookupCity g ip"
    and "LookupGlobalCity (fst (snd (loadDatabase F g))) ip = LookupGlobalCity g ip"
    and "LookupASN (fst (snd (loadDatabase F g))) ip = LookupASN g ip"
    and "performLookup L (m\<lparr>state := Some (fst (snd (loadDatabase F g)))\<rparr>) r repl
          = performLookup L (m\<lparr>state := Some g\<rparr>) r repl"
    by (simp_all add: l performScheduledReload_def)
next
  assume "validateDatabaseFile F (CityDatabasePath g) \<noteq> None
      \<or> (\<exists>e. Open F (CityDatabasePath g) = Inl e)"
  then obtain err where l: "loadDatabase F g = (Some err, g, [])"
    using loadDatabase_mandatory_failure [of F g] by blast
  show "fst (loadDatabase F g) \<noteq> None"
    and "fst (snd (loadDatabase F g)) = g"
    and "snd (snd (loadDatabase F g)) = []"
    and "performScheduledReload F g = (g, [])"
    and "GetDatabaseInfo (fst (snd (loadDatabase F g))) = GetDatabaseInfo g"
    and "Lookup (fst (snd (loadDatabase F g))) ip = Lookup g ip"
    and "LookupCity (fst (snd (loadDatabase F g))) ip = LookupCity g ip"
    and "LookupGlobalCity (fst (snd (loadDatabase F g))) ip = LookupGlobalCity g ip"
    and "LookupASN (fst (snd (loadDatabase F g))) ip = LookupASN g ip"
    and "performLookup L (m\<lparr>state := Some (fst (snd (loadDatabase F g)))\<rparr>) r repl
          = performLookup L (m\<lparr>state := Some g\<rparr>) r repl"
    by (simp_all add: l performScheduledReload_def)
next
  fix newCountryDB newCityDB
  assume "validateDatabaseFile F (CountryDatabasePath g) = None
         \<and> validateDatabaseFile F (CityDatabasePath g) = None
         \<and> Open F (CountryDatabasePath g) = Inr newCountryDB
         \<and> Open F (CityDatabasePath g) = Inr newCityDB"
  then show "loadDatabase F g =
             (None,
              g\<lparr>CountryDBHandler := Some newCountryDB,
                CityDBHandler := Some newCityDB,
                GlobalCityDBHandler :=
                  (case Open F (GlobalCityDatabasePath g) of
                     Inl e \<Rightarrow> None
                   | Inr db \<Rightarrow> Some db),
                ASNDBHandler :=
                  (if ASNDatabasePath g \<noteq> ''''
                      \<and> validateDatabaseFile F (ASNDatabasePath g) = None
                   then (case Open F (ASNDatabasePath g) of Inl e \<Rightarrow> None | Inr db \<Rightarrow> Some db)
                   else None)\<rparr>,
              oldHandlers g)"
    by (simp add: loadDatabase_def Let_def)
qed

theorem C8_failed_mandatory_load_keeps_state_witness:
  "validateDatabaseFile missingCountryFS (CountryDatabasePath fullState) \<noteq> None
   \<and> loadDatabase missingCountryFS fullState =
       (Some (Errorf ''country database validation failed: %v''
                [AErr (Errorf ''database file not found: %s''
                         [AStr ''/etc/geoip/GeoIP2-Country.mmdb''])]),
        fullState, [])
   \<and> validateDatabaseFile corruptCountryFS (CountryDatabasePath fullState) = None
   \<and> Open corruptCountryFS (CountryDatabasePath fullState)
        = Inl (LibError ''invalid MaxMind DB file'')
   \<and> fst (snd (loadDatabase corruptCountryFS fullState)) = fullState
   \<and> fst (loadDatabase corruptCountryFS fullState) \<noteq> None
   \<and> validateDatabaseFile cityMissingFS (CityDatabasePath fullState)
        = Some (Errorf ''database file not found: %s''
                  [AStr ''/etc/geoip/GeoIP2-City-Europe.mmdb''])
   \<and> fst (snd (loadDatabase cityMissingFS fullState)) = fullState
   \<and> fst (loadDatabase cityMissingFS fullState) \<noteq> None
   \<and> validateDatabaseFile optionalMissingFS (CountryDatabasePath fullState) = None
   \<and> validateDatabaseFile optionalMissingFS (CityDatabasePath fullState) = None
   \<and> Open optionalMissingFS (CountryDatabasePath fullState) = Inr countryReader
   \<and> Open optionalMissingFS (CityDatabasePath fullState) = Inr cityReader
   \<and> loadDatabase optionalMissingFS fullState
       = (None, regionOnlyState, [countryReader, cityReader, zeroReader, asnReader])"
proof -
  have p: "CountryDatabasePath fullState = ''/etc/geoip/GeoIP2-Country.mmdb''"
    "CityDatabasePath fullState = ''/etc/geoip/GeoIP2-City-Europe.mmdb''"
    "GlobalCityDatabasePath fullState = ''/etc/geoip/GeoLite2-City.mmdb''"
    "ASNDatabasePath fullState = ''/etc/geoip/GeoLite2-ASN.mmdb''"
    by (simp_all add: fullState_def mkState_def)
  have h1: "validateDatabaseFile missingCountryFS (CountryDatabasePath fullState) \<noteq> None"
    by (simp add: p validateDatabaseFile_def missingCountryFS_def isNotExist_def)
  have v: "validateDatabaseFile missingCountryFS (CountryDatabasePath fullState)
        = Some (Errorf ''database file not found: %s'' [AStr ''/etc/geoip/GeoIP2-Country.mmdb''])"
    by (simp add: p validateDatabaseFile_def missingCountryFS_def isNotExist_def)
  have l1: "loadDatabase missingCountryFS fullState =
       (Some (Errorf ''country database validation failed: %v''
                [AErr (Errorf ''database file not found: %s''
                         [AStr ''/etc/geoip/GeoIP2-Country.mmdb''])]),
        fullState, [])"
    by (simp add: loadDatabase_def v)
  have h2: "validateDatabaseFile corruptCountryFS (CountryDatabasePath fullState) = None"
    by (simp add: p validateDatabaseFile_def corruptCountryFS_def)
  have h3: "Open corruptCountryFS (CountryDatabasePath fullState)
        = Inl (LibError ''invalid MaxMind DB file'')"
    by (simp add: p corruptCountryFS_def)
  have a2: "validateDatabaseFile corruptCountryFS (CountryDatabasePath fullState) \<noteq> None
      \<or> (\<exists>e. Open corruptCountryFS (CountryDatabasePath fullState) = Inl e)"
    using h3 by simp
  have c: "fst (snd (loadDatabase corruptCountryFS fullState)) = fullState
      \<and> fst (loadDatabase corruptCountryFS fullState) \<noteq> None"
    using C8_failed_mandatory_load_keeps_state [THEN conjunct1, THEN mp, OF a2,
        of exampleIP exampleLib "handlerOf fullState" exampleRequest emptyReplacer]
    by simp
  have h4: "validateDatabaseFile cityMissingFS (CityDatabasePath fullState)
        = Some (Errorf ''database file not found: %s''
                  [AStr ''/etc/geoip/GeoIP2-City-Europe.mmdb''])"
    by (simp add: p validateDatabaseFile_def cityMissingFS_def isNotExist_def)
  have a3: "validateDatabaseFile cityMissingFS (CityDatabasePath fullState) \<noteq> None
      \<or> (\<exists>e. Open cityMissingFS (CityDatabasePath fullState) = Inl e)"
    using h4 by simp
  have d: "fst (snd (loadDatabase cityMissingFS fullState)) = fullState
      \<and> fst (loadDatabase cityMissingFS fullState) \<noteq> None"
    using C8_failed_mandatory_load_keeps_state [THEN conjunct2, THEN conjunct1, THEN mp, OF a3]
    by simp
  have o: "validateDatabaseFile optionalMissingFS (CountryDatabasePath fullState) = None
      \<and> validateDatabaseFile optionalMissingFS (CityDatabasePath fullState) = None
      \<and> Open optionalMissingFS (CountryDatabasePath fullState) = Inr countryReader
      \<and> Open optionalMissingFS (CityDatabasePath fullState) = Inr cityReader"
    by (simp add: p validateDatabaseFile_def optionalMissingFS_def)
  have og: "Open optionalMissingFS ''/etc/geoip/GeoLite2-City.mmdb'' = Inl ErrNotExist"
    "validateDatabaseFile optionalMissingFS ''/etc/geoip/GeoLite2-ASN.mmdb''
       = Some (Errorf ''database file not found: %s'' [AStr ''/etc/geoip/GeoLite2-ASN.mmdb''])"
    by (simp_all add: validateDatabaseFile_def optionalMissingFS_def isNotExist_def)
  have l3: "loadDatabase optionalMissingFS fullState
       = (None, regionOnlyState, [countryReader, cityReader, zeroReader, asnReader])"
    using C8_failed_mandatory_load_keeps_state [THEN conjunct2, THEN conjunct2, THEN spec,
        THEN spec, THEN mp, OF o]
    by (simp add: p og) (simp add: fullState_def regionOnlyState_def mkState_def oldHandlers_def)
  show ?thesis
    using h1 l1 h2 h3 c h4 d o l3 by simp
qed

text \<open>
  With the Country database in order and the Europe city database missing, the load is not
  best-effort for that slot: it returns an error and installs nothing.
\<close>

theorem C8_region_city_is_mandatory_counterexample:
  "validateDatabaseFile cityMissingFS (CountryDatabasePath fullState) = None
   \<and> Open cityMissingFS (CountryDatabasePath fullState) = Inr countryReader
   \<and> validateDatabaseFile cityMissingFS (CityDatabasePath fullState)
        = Some (Errorf ''database file not found: %s''
                  [AStr ''/etc/geoip/GeoIP2-City-Europe.mmdb''])
   \<and> loadDatabase cityMissingFS fullState =
       (Some (Errorf ''city database validation failed: %v''
                [AErr (Errorf ''database file not found: %s''
                         [AStr ''/etc/geoip/GeoIP2-City-Europe.mmdb''])]),
        fullState, [])"
proof -
  have p: "CountryDatabasePath fullState = ''/etc/geoip/GeoIP2-Country.mmdb''"
    "CityDatabasePath fullState = ''/etc/geoip/GeoIP2-City-Europe.mmdb''"
    by (simp_all add: fullState_def mkState_def)
  have v1: "validateDatabaseFile cityMissingFS (CountryDatabasePath fullState) = None"
    by (simp add: p validateDatabaseFile_def cityMissingFS_def)
  have o1: "Open cityMissingFS (CountryDatabasePath fullState) = Inr countryReader"
    by (simp add: p cityMissingFS_def)
  have v2: "validateDatabaseFile cityMissingFS (CityDatabasePath fullState)
        = Some (Errorf ''database file not found: %s''
                  [AStr ''/etc/geoip/GeoIP2-City-Europe.mmdb''])"
    by (simp add: p validateDatabaseFile_def cityMissingFS_def isNotExist_def)
  have "loadDatabase cityMissingFS fullState =
       (Some (Errorf ''city database validation failed: %v''
                [AErr (Errorf ''database file not found: %s''
                         [AStr ''/etc/geoip/GeoIP2-City-Europe.mmdb''])]),
        fullState, [])"
    by (simp add: loadDatabase_def v1 v2)
  with v1 o1 v2 show ?thesis
    by simp
qed

text \<open>
  C9. In strict mode (\<open>getSafetyLevel\<close> returns \<open>Strict\<close>) two requests with the same
  \<open>RemoteAddr\<close> get the same result of \<open>getClientIP\<close> and the same result of
  \<open>ServeHTTP\<close>, so the same eight variables, whatever their X-Forwarded-For headers.
\<close>

theorem C9_strict_ignores_forwarded_for:
  assumes "getSafetyLevel L m = Strict" and "RemoteAddr r1 = RemoteAddr r2"
  shows "getClientIP L m r1 = getClientIP L m r2
         \<and> ServeHTTP L m r1 repl next = ServeHTTP L m r2 repl next"
proof -
  have "clientIPString L m r1 = clientIPString L m r2"
    using assms by (simp add: clientIPString_strict split: sum.splits)
  then have ip: "getClientIP L m r1 = getClientIP L m r2"
    by (simp add: getClientIP_def)
  then have pl: "performLookup L m r1 = performLookup L m r2"
    by (intro ext) (simp only: performLookup_def)
  have "ServeHTTP L m r1 repl next = ServeHTTP L m r2 repl next"
    by (simp only: ServeHTTP_def pl)
  with ip show ?thesis
    by simp
qed

theorem C9_strict_ignores_forwarded_for_witness:
  "getSafetyLevel exampleLib (handlerOf fullState) = Strict
   \<and> RemoteAddr spoofedRequest = RemoteAddr exampleRequest
   \<and> XForwardedFor spoofedRequest \<noteq> XForwardedFor exampleRequest
   \<and> getClientIP exampleLib (handlerOf fullState) spoofedRequest = Inr exampleIP
   \<and> ServeHTTP exampleLib (handlerOf fullState) spoofedRequest emptyReplacer nextOK
       = ServeHTTP exampleLib (handlerOf fullState) exampleRequest emptyReplacer nextOK"
proof -
  have h2: "RemoteAddr spoofedRequest = RemoteAddr exampleRequest"
    by (simp add: spoofedRequest_def exampleRequest_def)
  have h3: "XForwardedFor spoofedRequest \<noteq> XForwardedFor exampleRequest"
    by (simp add: spoofedRequest_def exampleRequest_def)
  show ?thesis
    using h2 h3 getClientIP_example [of fullState]
      C9_strict_ignores_forwarded_for [of exampleLib "handlerOf fullState" spoofedRequest
        exampleRequest emptyReplacer nextOK, OF getSafetyLevel_handlerOf h2]
    by (simp add: getSafetyLevel_handlerOf)
qed

text \<open>
  C10. \<open>isEnabled\<close> is false exactly for the strings \<open>off\<close>, \<open>false\<close> and \<open>0\<close> as
  written. \<open>Validate\<close> compares the lowercased mode, so it accepts \<open>OFF\<close> and
  \<open>False\<close>, which lowercase to the disable modes; yet with either of them
  \<open>isEnabled\<close> is true and \<open>ServeHTTP\<close> calls \<open>performLookup\<close> for every
  request, while with \<open>off\<close> it queries nothing.
\<close>

theorem C10_uppercase_disable_mode_still_looks_up:
  "(isEnabled m \<longleftrightarrow> Enable m \<noteq> ''off'' \<and> Enable m \<noteq> ''false'' \<and> Enable m \<noteq> ''0'')
   \<and> Validate L (m\<lparr>Enable := ''OFF''\<rparr>) = None
   \<and> Validate L (m\<lparr>Enable := ''False''\<rparr>) = None
   \<and> ToLower L ''OFF'' = ''off'' \<and> ToLower L ''False'' = ''false''
   \<and> isEnabled (m\<lparr>Enable := ''OFF''\<rparr>) \<and> isEnabled (m\<lparr>Enable := ''False''\<rparr>)
   \<and> fst (ServeHTTP L (m\<lparr>Enable := ''OFF''\<rparr>) r repl next)
       = performLookup L (m\<lparr>Enable := ''OFF''\<rparr>) r (initializeVariables repl)
   \<and> fst (ServeHTTP L (m\<lparr>Enable := ''False''\<rparr>) r repl next)
       = performLookup L (m\<lparr>Enable := ''False''\<rparr>) r (initializeVariables repl)
   \<and> fst (ServeHTTP L (m\<lparr>Enable := ''off''\<rparr>) r repl next) = (initializeVariables repl, [])"
  by (simp add: isEnabled_def Validate_def ToLower_OFF ToLower_False validModes_def
      ServeHTTP_def Let_def split: prod.splits)

end
